theory Spec2Isabelle
  imports Complex_Main
begin

section \<open>Python values, exceptions and the framework's objects\<close>

text \<open>
  The program is Python over a deep-learning framework. Exceptions are values: every
  function that can raise returns \<open>py_exn + 'a\<close> with \<open>Inl\<close> the exception. Python floats
  are taken as real numbers, so rounding is outside this development.
\<close>

datatype py_exn =
    KeyError string
  | NameError string
  | AttributeError string
  | TypeError string
  | ValueError string
  | RuntimeError string
  | AssertionError string
  | ZeroDivisionError

text \<open>A \<open>torch.device\<close>: its type and optional index, \<open>cuda:0\<close> being \<open>cuda\<close> with index 0.\<close>

record device =
  dev_type :: string
  dev_index :: "nat option"

text \<open>
  The values a configuration holds: what \<open>yaml.safe_load\<close> produces (null, booleans,
  numbers, strings, sequences, mappings with string keys) and the device object that
  \<open>load_config\<close> stores. A mapping is a dictionary object, and the program changes
  dictionaries in place: a value that is a dictionary is the address of the object, and
  the heap gives each object's entries. Two entries of a YAML file that are an anchor and
  its alias hold the same address. The order of a dictionary's keys is not part of the
  model; sequences are never changed and are held by value.
\<close>

type_synonym addr = nat

datatype pyval =
    VNone
  | VBool bool
  | VInt int
  | VFloat real
  | VStr string
  | VList "pyval list"
  | VRef addr
  | VDevice device

type_synonym dict = "string \<Rightarrow> pyval option"

type_synonym heap = "addr \<Rightarrow> dict"

text \<open>\<open>d[k]\<close> on a dictionary: a missing key raises \<open>KeyError\<close>.\<close>

definition lookup :: "dict \<Rightarrow> string \<Rightarrow> py_exn + pyval" where
  "lookup d k = (case d k of None \<Rightarrow> Inl (KeyError k) | Some v \<Rightarrow> Inr v)"

text \<open>
  \<open>d[k] = v\<close> and the removal that \<open>d.pop(k, None)\<close> makes, on the dictionary object at
  an address: every holder of the address sees the change.
\<close>

definition set_item :: "heap \<Rightarrow> addr \<Rightarrow> string \<Rightarrow> pyval \<Rightarrow> heap" where
  "set_item h r k v = h(r := (h r)(k \<mapsto> v))"

definition del_item :: "heap \<Rightarrow> addr \<Rightarrow> string \<Rightarrow> heap" where
  "del_item h r k = h(r := (h r)(k := None))"

text \<open>Truth value of an object, as \<open>if x\<close> and \<open>x and y\<close> test it.\<close>

fun truthy :: "heap \<Rightarrow> pyval \<Rightarrow> bool" where
  "truthy h VNone = False"
| "truthy h (VBool b) = b"
| "truthy h (VInt i) = (i \<noteq> 0)"
| "truthy h (VFloat r) = (r \<noteq> 0)"
| "truthy h (VStr s) = (s \<noteq> [])"
| "truthy h (VList xs) = (xs \<noteq> [])"
| "truthy h (VRef r) = (h r \<noteq> Map.empty)"
| "truthy h (VDevice d) = True"

text \<open>
  \<open>x != "xpu"\<close>: a \<open>torch.device\<close> never compares equal to a string, so the test is true
  of every device object; it is false only of the string \<open>xpu\<close> itself.
\<close>

fun ne_xpu :: "pyval \<Rightarrow> bool" where
  "ne_xpu (VStr s) = (s \<noteq> ''xpu'')"
| "ne_xpu _ = True"

text \<open>\<open>x.__str__() == "xpu"\<close>: a device prints as its type, with \<open>:index\<close> when it has one.\<close>

fun str_is_xpu :: "pyval \<Rightarrow> bool" where
  "str_is_xpu (VStr s) = (s = ''xpu'')"
| "str_is_xpu (VDevice d) = (dev_type d = ''xpu'' \<and> dev_index d = None)"
| "str_is_xpu _ = False"

datatype dtype = Float16 | BFloat16 | Float32

text \<open>
  \<open>torch.float16 if precision == "float16" else torch.bfloat16 if precision == "bfloat16"
  else torch.float\<close>, on a string and on a configuration value.
\<close>

definition datatype_of :: "string \<Rightarrow> dtype" where
  "datatype_of precision =
     (if precision = ''float16'' then Float16
      else if precision = ''bfloat16'' then BFloat16 else Float32)"

definition datatype_of_val :: "pyval \<Rightarrow> dtype" where
  "datatype_of_val v = (case v of VStr s \<Rightarrow> datatype_of s | _ \<Rightarrow> Float32)"

datatype layout = Contiguous | ChannelsLast3d

subsection \<open>Paths\<close>

text \<open>\<open>os.path.join(a, b)\<close> and the head of \<open>os.path.split(p)\<close>, as \<open>posixpath\<close> has them.\<close>

definition path_join :: "string \<Rightarrow> string \<Rightarrow> string" where
  "path_join a b =
     (if b \<noteq> [] \<and> hd b = CHR ''/'' then b
      else if a = [] \<or> last a = CHR ''/'' then a @ b
      else a @ ''/'' @ b)"

definition path_split_head :: "string \<Rightarrow> string" where
  "path_split_head p =
     (let head = rev (dropWhile (\<lambda>c. c \<noteq> CHR ''/'') (rev p))
      in if head \<noteq> [] \<and> (\<exists>c \<in> set head. c \<noteq> CHR ''/'')
         then rev (dropWhile (\<lambda>c. c = CHR ''/'') (rev head))
         else head)"

subsection \<open>Evaluation scores\<close>

text \<open>
  A score is a float that may be infinite: \<open>float('-inf')\<close>, a finite number or
  \<open>float('+inf')\<close>, ordered as the floats are. NaN is not modelled.
\<close>

datatype score = NegInf | Fin real | PosInf

instantiation score :: linorder
begin

fun less_eq_score :: "score \<Rightarrow> score \<Rightarrow> bool" where
  "less_eq_score NegInf _ = True"
| "less_eq_score (Fin a) NegInf = False"
| "less_eq_score (Fin a) (Fin b) = (a \<le> b)"
| "less_eq_score (Fin a) PosInf = True"
| "less_eq_score PosInf PosInf = True"
| "less_eq_score PosInf _ = False"

definition less_score :: "score \<Rightarrow> score \<Rightarrow> bool" where
  "less_score a b = (a \<le> b \<and> \<not> b \<le> a)"

instance
proof
  fix x y z :: score
  show "(x < y) = (x \<le> y \<and> \<not> y \<le> x)" by (simp add: less_score_def)
  show "x \<le> x" by (cases x) simp_all
  show "x \<le> y \<Longrightarrow> y \<le> z \<Longrightarrow> x \<le> z" by (cases x; cases y; cases z) simp_all
  show "x \<le> y \<Longrightarrow> y \<le> x \<Longrightarrow> x = y" by (cases x; cases y) simp_all
  show "x \<le> y \<or> y \<le> x" by (cases x; cases y) auto
qed

end

section \<open>config.py\<close>

subsection \<open>The command line\<close>

text \<open>
  The namespace \<open>parser.parse_args()\<close> returns. Each \<open>add_argument\<close> of \<open>load_config\<close>
  gives one field, its type and its default; \<open>--config\<close> is required.
\<close>

record args =
  config_path :: string
  batch_size :: int
  precision :: string
  channels_last :: int
  jit :: bool
  profile :: bool
  num_iter :: int
  num_warmup :: int
  device_flag :: string
  nv_fuser :: bool
  ipex :: bool

text \<open>The optional flags as they can stand on a command line, already of their type.\<close>

datatype flag =
    Flag_batch_size int
  | Flag_precision string
  | Flag_channels_last int
  | Flag_jit
  | Flag_profile
  | Flag_num_iter int
  | Flag_num_warmup int
  | Flag_device string
  | Flag_nv_fuser
  | Flag_ipex

definition default_args :: "string \<Rightarrow> args" where
  "default_args path =
     \<lparr> config_path = path, batch_size = 1, precision = ''float32'', channels_last = 1,
       jit = False, profile = False, num_iter = 200, num_warmup = 20,
       device_flag = ''cpu'', nv_fuser = False, ipex = False \<rparr>"

fun set_flag :: "args \<Rightarrow> flag \<Rightarrow> args" where
  "set_flag a (Flag_batch_size n) = a\<lparr>batch_size := n\<rparr>"
| "set_flag a (Flag_precision s) = a\<lparr>precision := s\<rparr>"
| "set_flag a (Flag_channels_last n) = a\<lparr>channels_last := n\<rparr>"
| "set_flag a Flag_jit = a\<lparr>jit := True\<rparr>"
| "set_flag a Flag_profile = a\<lparr>profile := True\<rparr>"
| "set_flag a (Flag_num_iter n) = a\<lparr>num_iter := n\<rparr>"
| "set_flag a (Flag_num_warmup n) = a\<lparr>num_warmup := n\<rparr>"
| "set_flag a (Flag_device s) = a\<lparr>device_flag := s\<rparr>"
| "set_flag a Flag_nv_fuser = a\<lparr>nv_fuser := True\<rparr>"
| "set_flag a Flag_ipex = a\<lparr>ipex := True\<rparr>"

text \<open>\<open>parse_args\<close>: the defaults, overridden by the flags given, the last one winning.\<close>

definition parse_args :: "string \<Rightarrow> flag list \<Rightarrow> args" where
  "parse_args path flags = foldl set_flag (default_args path) flags"

subsection \<open>The framework as \<open>load_config\<close> sees it\<close>

text \<open>
  \<open>torch.cuda.is_available()\<close> and \<open>torch.device(s)\<close> belong to the framework and are
  parameters here; \<open>torch.device\<close> raises on a string that names no device.
\<close>

record torch_env =
  cuda_is_available :: bool
  torch_device :: "string \<Rightarrow> py_exn + device"

text \<open>
  Lines 28 to 36: the device named by the YAML file. \<open>config.get('device', None)\<close> is
  tested against \<open>None\<close>, and \<open>startswith\<close> is called on whatever else it is; only a
  string has that method.
\<close>

definition yaml_device_str :: "torch_env \<Rightarrow> dict \<Rightarrow> py_exn + string" where
  "yaml_device_str env config =
     (case config ''device'' of
        None \<Rightarrow> Inr (if cuda_is_available env then ''cuda:0'' else ''cpu'')
      | Some VNone \<Rightarrow> Inr (if cuda_is_available env then ''cuda:0'' else ''cpu'')
      | Some (VStr s) \<Rightarrow>
          Inr (if take 4 s = ''cuda'' \<and> \<not> cuda_is_available env then ''cpu'' else s)
      | Some _ \<Rightarrow> Inl (AttributeError ''startswith''))"

text \<open>
  \<open>config['loaders']['batch_size'] = v\<close>: the lookup of \<open>loaders\<close> in the dictionary at
  \<open>r\<close>, then an item assignment on the object found, which only a dictionary accepts under
  a string key. The assignment changes that object where it is.
\<close>

definition set_loaders_batch_size :: "heap \<Rightarrow> addr \<Rightarrow> int \<Rightarrow> py_exn + heap" where
  "set_loaders_batch_size h r n =
     (case lookup (h r) ''loaders'' of
        Inl e \<Rightarrow> Inl e
      | Inr (VRef loaders) \<Rightarrow> Inr (set_item h loaders ''batch_size'' (VInt n))
      | Inr (VList xs) \<Rightarrow> Inl (TypeError ''list indices must be integers or slices, not str'')
      | Inr _ \<Rightarrow> Inl (TypeError ''object does not support item assignment''))"

text \<open>
  \<open>load_config\<close>, given the flags of the command line, the heap after
  \<open>yaml.safe_load\<close> and the value it returned for the file. The device string computed
  from the file is overwritten by \<open>args.device\<close> at line 38. The configuration returned
  is the object that was parsed, at its address, in the heap as the assignments of lines
  40 to 50 leave it.
\<close>

definition load_config ::
  "torch_env \<Rightarrow> string \<Rightarrow> flag list \<Rightarrow> heap \<Rightarrow> pyval \<Rightarrow> py_exn + heap \<times> addr" where
  "load_config env path flags h yaml =
     (let a = parse_args path flags in
      case yaml of
        VRef config \<Rightarrow>
          (case yaml_device_str env (h config) of
             Inl e \<Rightarrow> Inl e
           | Inr yaml_str \<Rightarrow>
               (let device_str = device_flag a in
                case torch_device env device_str of
                  Inl e \<Rightarrow> Inl e
                | Inr dev \<Rightarrow>
                    (let h = set_item h config ''device'' (VDevice dev);
                         h = set_item h config ''device_str'' (VStr device_str)
                     in case set_loaders_batch_size h config (batch_size a) of
                          Inl e \<Rightarrow> Inl e
                        | Inr h \<Rightarrow>
                            (let h = set_item h config ''precision'' (VStr (precision a));
                                 h = set_item h config ''channels_last'' (VInt (channels_last a));
                                 h = set_item h config ''jit'' (VBool (jit a));
                                 h = set_item h config ''profile'' (VBool (profile a));
                                 h = set_item h config ''num_iter'' (VInt (num_iter a));
                                 h = set_item h config ''num_warmup'' (VInt (num_warmup a));
                                 h = set_item h config ''nv_fuser'' (VBool (nv_fuser a));
                                 h = set_item h config ''ipex'' (VBool (ipex a))
                             in Inr (h, config)))))
      | _ \<Rightarrow> Inl (AttributeError ''get''))"

section \<open>trainer.py: the objects\<close>

text \<open>
  A model is a module, possibly wrapped in \<open>nn.DataParallel\<close>. The wrapper's own state
  dict has every key of the inner module's under the prefix \<open>module.\<close>; \<open>.module\<close> is
  the inner module. \<open>param_formats\<close> is the memory format of each parameter, in order.
\<close>

type_synonym tensor = "real list"

type_synonym state_dict = "(string \<times> tensor) list"

record nn_model =
  data_parallel :: bool
  module_state :: state_dict
  model_device :: "pyval option"
  param_formats :: "layout list"
  xpu_optimized :: "dtype option"

definition module :: "nn_model \<Rightarrow> nn_model" where
  "module m = m\<lparr>data_parallel := False\<rparr>"

definition state_dict :: "nn_model \<Rightarrow> state_dict" where
  "state_dict m =
     (if data_parallel m then map (\<lambda>(k, v). (''module.'' @ k, v)) (module_state m)
      else module_state m)"

record optimizer =
  opt_state :: state_dict

text \<open>
  One batch of the train loader, with what the environment does while the loop body runs
  on it: the number of tensors it holds, what \<open>input.to(memory_format=
  torch.channels_last_3d)\<close> raises on it (nothing when it converts), and the four readings
  of \<open>time.time()\<close> in the order of the source (the xpu path takes the first and the last
  only). Every other framework call of the loop body is taken to return.
\<close>

record batch =
  batch_len :: nat
  input_to_channels_last :: "py_exn option"
  time_start :: real
  time_cl_start :: real
  time_cl_end :: real
  time_end :: real

text \<open>
  The entries of \<open>self.config\<close> that \<open>train\<close> reads, with the types \<open>load_config\<close> stores
  them at: \<open>cfg_batch_size\<close> is \<open>config['loaders']['batch_size']\<close>, every other field is
  the top-level key of its name.
\<close>

record run_config =
  cfg_num_iter :: int
  cfg_num_warmup :: int
  cfg_precision :: string
  cfg_profile :: bool
  cfg_device_str :: string
  cfg_channels_last :: int
  cfg_batch_size :: int

definition run_config_of :: "heap \<Rightarrow> addr \<Rightarrow> run_config option" where
  "run_config_of h r =
     (case (h r ''num_iter'', h r ''num_warmup'', h r ''precision'', h r ''profile'',
            h r ''device_str'', h r ''channels_last'', h r ''loaders'') of
        (Some (VInt n), Some (VInt w), Some (VStr p), Some (VBool pr), Some (VStr d),
         Some (VInt cl), Some (VRef loaders)) \<Rightarrow>
          (case h loaders ''batch_size'' of
             Some (VInt bs) \<Rightarrow>
               Some \<lparr> cfg_num_iter = n, cfg_num_warmup = w, cfg_precision = p,
                      cfg_profile = pr, cfg_device_str = d, cfg_channels_last = cl,
                      cfg_batch_size = bs \<rparr>
           | _ \<Rightarrow> None)
      | _ \<Rightarrow> None)"

text \<open>
  The trainer's attributes that the modelled methods read or write. \<open>'c\<close> is the type of
  \<open>self.config\<close>: the address of the dictionary where \<open>create_trainer\<close> builds the
  trainer, its typed entries where \<open>train\<close> runs. \<open>'n\<close> is the type of the two maxima:
  \<open>__init__\<close> stores whatever the configuration gives, and \<open>fit\<close> runs on integers.
  \<open>loaders_train\<close> is the list of batches that \<open>self.loaders['train']\<close> yields in one
  pass, its length the loader's \<open>len\<close>.
\<close>

record ('c, 'n) trainer =
  model :: nn_model
  optimizer :: optimizer
  device :: pyval
  loaders_train :: "batch list"
  checkpoint_dir :: string
  max_num_epochs :: 'n
  max_num_iterations :: 'n
  eval_score_higher_is_better :: bool
  config :: 'c
  best_eval_score :: score
  num_iterations :: int
  num_epochs :: int

text \<open>What the program prints, and the calls it makes, in order.\<close>

datatype out =
    PrintLine string
  | PrintFailedNHWC py_exn
  | PrintIteration int real
  | PrintCounted int
  | PrintTotal real int
  | PrintLatency real
  | PrintThroughput real

datatype clock_use = AtStart | AtClStart | AtClEnd | AtDuration

datatype event =
    ModelTrain
  | LogIteration int
  | TimeTime clock_use
  | SplitTrainingBatch
  | InputToChannelsLast
  | Print out
  | ProfilerLegacyEnter
  | ProfilerLegacyExit
  | ProfilerEnter "string list"
  | ProfilerStep
  | ProfilerExit
  | AutocastEnter string dtype
  | AutocastExit
  | ModelCall layout
  | LossCriterion bool
  | TrainLossesUpdate
  | ZeroGrad
  | Backward
  | OptimizerStep
  | OutputCpu
  | LossCpu
  | Synchronize string

section \<open>trainer.py: the training loop\<close>

text \<open>
  \<open>_split_training_batch\<close>: the batch is moved to the device, then unpacked into input and
  target when it has two elements and into input, target and weight otherwise. The result
  says whether there is a weight.
\<close>

definition split_training_batch :: "batch \<Rightarrow> py_exn + bool" where
  "split_training_batch b =
     (if batch_len b = 2 then Inr False
      else if batch_len b = 3 then Inr True
      else if batch_len b < 3 then Inl (ValueError ''not enough values to unpack'')
      else Inl (ValueError ''too many values to unpack''))"

text \<open>
  The loop's variables: \<open>self.num_iterations\<close>, \<open>total_time\<close> and \<open>total_count\<close>. One pass
  of the loop body ends by falling through to the next batch, by \<open>break\<close> or by an
  exception.
\<close>

record loop_state =
  ls_num_iterations :: int
  ls_total_time :: real
  ls_total_count :: int

datatype outcome = Continue | Break | Raise py_exn

text \<open>
  Lines 205 to 250, the loop body under \<open>profile\<close> on \<open>xpu\<close>. Line 232 reads \<open>args.profile\<close>,
  and \<open>trainer.py\<close> binds no name \<open>args\<close>: the name is looked up before anything else on
  that line, so every pass ends there with \<open>NameError\<close>.
\<close>

definition iteration_xpu_profiled ::
  "run_config \<Rightarrow> int \<Rightarrow> int \<Rightarrow> dtype \<Rightarrow> batch \<Rightarrow> loop_state \<Rightarrow> event list \<times> loop_state \<times> outcome" where
  "iteration_xpu_profiled cfg last_iter profile_len dt b s =
     (let i = ls_num_iterations s;
          ev1 = [LogIteration i, TimeTime AtStart, SplitTrainingBatch]
      in case split_training_batch b of
           Inl e \<Rightarrow> (ev1, s, Raise e)
         | Inr weight \<Rightarrow>
             (let ev2 = [ProfilerLegacyEnter, AutocastEnter ''xpu'' dt,
                         ModelCall Contiguous, LossCriterion weight,
                         AutocastExit, ProfilerLegacyExit,
                         TrainLossesUpdate, ZeroGrad, Backward, OptimizerStep,
                         OutputCpu, LossCpu, Synchronize ''xpu''];
                  duration = time_end b - time_start b;
                  ev3 = [TimeTime AtDuration, Print (PrintIteration i duration)];
                  counted = (i \<ge> cfg_num_warmup cfg \<and> i < last_iter);
                  ev4 = (if counted then [Print (PrintCounted i)] else []);
                  s' = (if counted
                        then s\<lparr>ls_total_time := ls_total_time s + duration,
                               ls_total_count := ls_total_count s + 1\<rparr>
                        else s)
              in (ev1 @ ev2 @ ev3 @ ev4, s', Raise (NameError ''args''))))"

text \<open>Lines 267 to 313, the loop body under \<open>profile\<close> on a device other than \<open>xpu\<close>.\<close>

definition iteration_profiled ::
  "run_config \<Rightarrow> int \<Rightarrow> dtype \<Rightarrow> batch \<Rightarrow> loop_state \<Rightarrow> event list \<times> loop_state \<times> outcome" where
  "iteration_profiled cfg last_iter dt b s =
     (let i = ls_num_iterations s;
          ev1 = [LogIteration i, TimeTime AtStart, SplitTrainingBatch]
      in case split_training_batch b of
           Inl e \<Rightarrow> (ev1, s, Raise e)
         | Inr weight \<Rightarrow>
             (let convert = (cfg_channels_last cfg \<noteq> 0 \<and> cfg_device_str cfg \<noteq> ''xpu'');
                  (ev2, format, raised) =
                    (if convert
                     then (case input_to_channels_last b of
                             None \<Rightarrow>
                               ([TimeTime AtClStart, InputToChannelsLast,
                                 Print (PrintLine ''---input use NDHWC format'')],
                                ChannelsLast3d, None)
                           | Some (RuntimeError m) \<Rightarrow>
                               ([TimeTime AtClStart, InputToChannelsLast,
                                 Print (PrintLine ''----input use normal format''),
                                 Print (PrintFailedNHWC (RuntimeError m))],
                                Contiguous, None)
                           | Some e \<Rightarrow>
                               ([TimeTime AtClStart, InputToChannelsLast], Contiguous, Some e))
                     else ([TimeTime AtClStart], Contiguous, None))
              in case raised of
                   Some e \<Rightarrow> (ev1 @ ev2, s, Raise e)
                 | None \<Rightarrow>
                     (let cl_duration = time_cl_end b - time_cl_start b;
                          ev3 = [TimeTime AtClEnd];
                          ev4 = (if cfg_device_str cfg = ''cuda''
                                 then [AutocastEnter ''cuda'' dt, ModelCall format,
                                       LossCriterion weight, AutocastExit]
                                 else [AutocastEnter ''cpu'' dt, ModelCall format,
                                       LossCriterion weight, AutocastExit]);
                          ev5 = [TrainLossesUpdate, ZeroGrad, Backward, OptimizerStep,
                                 OutputCpu, LossCpu];
                          ev6 = (if cfg_device_str cfg = ''cuda''
                                 then [Synchronize ''cuda''] else []);
                          duration = time_end b - time_start b - cl_duration;
                          ev7 = [TimeTime AtDuration, ProfilerStep,
                                 Print (PrintIteration i duration)];
                          counted = (i \<ge> cfg_num_warmup cfg \<and> i < last_iter);
                          ev8 = (if counted then [Print (PrintCounted i)] else []);
                          s' = (if counted
                                then s\<lparr>ls_total_time := ls_total_time s + duration,
                                       ls_total_count := ls_total_count s + 1\<rparr>
                                else s);
                          evs = ev1 @ ev2 @ ev3 @ ev4 @ ev5 @ ev6 @ ev7 @ ev8
                      in if i \<ge> cfg_num_iter cfg then (evs, s', Break)
                         else (evs, s'\<lparr>ls_num_iterations := i + 1\<rparr>, Continue))))"

text \<open>Lines 316 to 366, the loop body without profiling.\<close>

definition iteration_unprofiled ::
  "run_config \<Rightarrow> int \<Rightarrow> dtype \<Rightarrow> batch \<Rightarrow> loop_state \<Rightarrow> event list \<times> loop_state \<times> outcome" where
  "iteration_unprofiled cfg last_iter dt b s =
     (let i = ls_num_iterations s;
          ev1 = [LogIteration i, TimeTime AtStart, SplitTrainingBatch]
      in case split_training_batch b of
           Inl e \<Rightarrow> (ev1, s, Raise e)
         | Inr weight \<Rightarrow>
             (let convert = (cfg_channels_last cfg \<noteq> 0 \<and> cfg_device_str cfg \<noteq> ''xpu'');
                  (ev2, format, raised) =
                    (if convert
                     then (case input_to_channels_last b of
                             None \<Rightarrow>
                               ([TimeTime AtClStart, InputToChannelsLast,
                                 Print (PrintLine ''---input use NDHWC format'')],
                                ChannelsLast3d, None)
                           | Some (RuntimeError m) \<Rightarrow>
                               ([TimeTime AtClStart, InputToChannelsLast,
                                 Print (PrintLine ''----input use normal format''),
                                 Print (PrintFailedNHWC (RuntimeError m))],
                                Contiguous, None)
                           | Some e \<Rightarrow>
                               ([TimeTime AtClStart, InputToChannelsLast], Contiguous, Some e))
                     else ([TimeTime AtClStart], Contiguous, None))
              in case raised of
                   Some e \<Rightarrow> (ev1 @ ev2, s, Raise e)
                 | None \<Rightarrow>
                     (let cl_duration = time_cl_end b - time_cl_start b;
                          ev3 = [TimeTime AtClEnd];
                          ev4 = (if cfg_device_str cfg = ''cuda''
                                 then [AutocastEnter ''cuda'' dt, ModelCall format,
                                       LossCriterion weight, AutocastExit]
                                 else if cfg_device_str cfg = ''xpu''
                                 then [AutocastEnter ''xpu'' dt, ModelCall format,
                                       LossCriterion weight, AutocastExit]
                                 else [AutocastEnter ''cpu'' dt, ModelCall format,
                                       LossCriterion weight, AutocastExit]);
                          ev5 = [TrainLossesUpdate, ZeroGrad, Backward, OptimizerStep,
                                 OutputCpu, LossCpu];
                          ev6 = (if cfg_device_str cfg = ''cuda'' then [Synchronize ''cuda'']
                                 else if cfg_device_str cfg = ''xpu'' then [Synchronize ''xpu'']
                                 else []);
                          duration = time_end b - time_start b - cl_duration;
                          ev7 = [TimeTime AtDuration, Print (PrintIteration i duration)];
                          counted = (i \<ge> cfg_num_warmup cfg \<and> i < last_iter);
                          ev8 = (if counted then [Print (PrintCounted i)] else []);
                          s' = (if counted
                                then s\<lparr>ls_total_time := ls_total_time s + duration,
                                       ls_total_count := ls_total_count s + 1\<rparr>
                                else s);
                          evs = ev1 @ ev2 @ ev3 @ ev4 @ ev5 @ ev6 @ ev7 @ ev8
                      in if i \<ge> cfg_num_iter cfg then (evs, s', Break)
                         else (evs, s'\<lparr>ls_num_iterations := i + 1\<rparr>, Continue))))"

text \<open>\<open>for t in self.loaders['train']\<close>: the body on each batch until one breaks or raises.\<close>

fun train_loop ::
  "(batch \<Rightarrow> loop_state \<Rightarrow> event list \<times> loop_state \<times> outcome) \<Rightarrow> batch list \<Rightarrow> loop_state
   \<Rightarrow> event list \<times> loop_state \<times> py_exn option" where
  "train_loop body [] s = ([], s, None)"
| "train_loop body (b # bs) s =
     (case body b s of
        (ev, s', Raise e) \<Rightarrow> (ev, s', Some e)
      | (ev, s', Break) \<Rightarrow> (ev, s', None)
      | (ev, s', Continue) \<Rightarrow>
          (case train_loop body bs s' of (evs, s'', r) \<Rightarrow> (ev @ evs, s'', r)))"

text \<open>
  Lines 368 to 371: the averages after the loop, as latency and throughput. Each division
  raises on a zero divisor.
\<close>

definition epoch_perf :: "int \<Rightarrow> real \<Rightarrow> int \<Rightarrow> py_exn + real \<times> real" where
  "epoch_perf batch_sz total_time total_count =
     (if total_count = 0 then Inl ZeroDivisionError
      else (let avg_time = total_time / real_of_int total_count
            in if batch_sz = 0 then Inl ZeroDivisionError
               else (let latency = avg_time / real_of_int batch_sz * 1000
                     in if avg_time = 0 then Inl ZeroDivisionError
                        else Inr (latency, real_of_int batch_sz / avg_time))))"

text \<open>
  \<open>train\<close>: one epoch. The result is the calls and prints in order, the trainer with
  \<open>num_iterations\<close> as the loop left it, and the value returned or the exception raised.
\<close>

definition train :: "(run_config, int) trainer \<Rightarrow> event list \<times> (run_config, int) trainer \<times> (py_exn + bool)" where
  "train t =
     (let cfg = config t;
          n = int (length (loaders_train t));
          profile_len = min n (cfg_num_iter cfg) div 2;
          last_iter = min n (cfg_num_iter cfg) - 1;
          dt = datatype_of (cfg_precision cfg);
          s0 = \<lparr> ls_num_iterations = num_iterations t, ls_total_time = 0, ls_total_count = 0 \<rparr>;
          (evs, s, raised) =
            (if cfg_profile cfg \<and> cfg_device_str cfg = ''xpu''
             then train_loop (iteration_xpu_profiled cfg last_iter profile_len dt)
                    (loaders_train t) s0
             else if cfg_profile cfg \<and> cfg_device_str cfg \<noteq> ''xpu''
             then (let profile_act = (if cfg_device_str cfg = ''cuda''
                                      then [''CPU'', ''CUDA''] else [''CPU''])
                   in case train_loop (iteration_profiled cfg last_iter dt)
                             (loaders_train t) s0 of
                        (evs, s, r) \<Rightarrow> ([ProfilerEnter profile_act] @ evs @ [ProfilerExit], s, r))
             else train_loop (iteration_unprofiled cfg last_iter dt) (loaders_train t) s0);
          t' = t\<lparr>num_iterations := ls_num_iterations s\<rparr>
      in case raised of
           Some e \<Rightarrow> ([ModelTrain] @ evs, t', Inl e)
         | None \<Rightarrow>
             (case epoch_perf (cfg_batch_size cfg) (ls_total_time s) (ls_total_count s) of
                Inl e \<Rightarrow> ([ModelTrain] @ evs, t', Inl e)
              | Inr (latency, perf) \<Rightarrow>
                  ([ModelTrain] @ evs @
                   [Print (PrintTotal (ls_total_time s) (ls_total_count s)),
                    Print (PrintLatency latency), Print (PrintThroughput perf)],
                   t', Inr True)))"

text \<open>
  \<open>fit\<close>: \<open>range(self.num_epochs, self.max_num_epochs)\<close> is built once, so the loop has a
  fixed number of passes left. The result counts the calls of \<open>train\<close> and carries the
  exception that left \<open>fit\<close>, if one did.
\<close>

fun fit_loop :: "nat \<Rightarrow> (run_config, int) trainer \<Rightarrow> nat \<Rightarrow> nat \<times> (run_config, int) trainer \<times> py_exn option" where
  "fit_loop 0 t calls = (calls, t, None)"
| "fit_loop (Suc k) t calls =
     (case train t of
        (evs, t', Inl e) \<Rightarrow> (Suc calls, t', Some e)
      | (evs, t', Inr should_terminate) \<Rightarrow>
          (if should_terminate then (Suc calls, t', None)
           else fit_loop k (t'\<lparr>num_epochs := num_epochs t' + 1\<rparr>) (Suc calls)))"

definition fit :: "(run_config, int) trainer \<Rightarrow> nat \<times> (run_config, int) trainer \<times> py_exn option" where
  "fit t = fit_loop (nat (max_num_epochs t - num_epochs t)) t 0"

text \<open>\<open>_is_best_eval_score\<close>: the trainer after the call and the value returned.\<close>

definition is_best_eval_score :: "('c, 'n) trainer \<Rightarrow> score \<Rightarrow> ('c, 'n) trainer \<times> bool" where
  "is_best_eval_score t eval_score =
     (let is_best = (if eval_score_higher_is_better t
                     then eval_score > best_eval_score t
                     else eval_score < best_eval_score t)
      in (if is_best then t\<lparr>best_eval_score := eval_score\<rparr> else t, is_best))"

text \<open>Lines 143 to 147 of \<open>__init__\<close>.\<close>

definition initial_best_eval_score :: "bool \<Rightarrow> score" where
  "initial_best_eval_score higher_is_better = (if higher_is_better then NegInf else PosInf)"

text \<open>A sequence of calls of \<open>_is_best_eval_score\<close>, one per score, in order.\<close>

fun eval_scores :: "('c, 'n) trainer \<Rightarrow> score list \<Rightarrow> ('c, 'n) trainer" where
  "eval_scores t [] = t"
| "eval_scores t (s # ss) = eval_scores (fst (is_best_eval_score t s)) ss"

section \<open>trainer.py: building the trainer\<close>

text \<open>
  What \<open>utils.load_checkpoint\<close> hands back: the model and the optimizer with the stored
  state loaded, and the counters of the stored record.
\<close>

record loaded =
  ld_model :: nn_model
  ld_optimizer :: "optimizer option"
  ld_num_epochs :: int
  ld_num_iterations :: int
  ld_best_eval_score :: score

text \<open>
  The helpers that \<open>create_trainer\<close> and \<open>__init__\<close> call and that live in other modules
  are parameters: the number of CUDA devices, the model built from its configuration,
  the model's conversion, the train loader's batches, the optimizer, whether
  \<open>get_tensorboard_formatter\<close> returns a formatter, and \<open>utils.load_checkpoint\<close>. The
  loss, the metric and the scheduler are built and stored but never read by the modelled
  methods. Apart from the conversion and \<open>load_checkpoint\<close>, the helpers are taken to
  return, and to leave the configuration as it is.

  \<open>model.to(memory_format=torch.channels_last_3d)\<close> works on the module in place, one
  parameter after the other: \<open>model_to_channels_last\<close> gives what the call raises (nothing
  when it converts) and the model as the call leaves it, which after an exception is the
  same object with the parameters converted so far.
\<close>

record trainer_env =
  cuda_device_count :: nat
  get_model :: "heap \<Rightarrow> pyval \<Rightarrow> nn_model"
  model_to_channels_last :: "nn_model \<Rightarrow> py_exn option \<times> nn_model"
  get_train_loaders :: "heap \<Rightarrow> addr \<Rightarrow> batch list"
  create_optimizer :: "heap \<Rightarrow> pyval \<Rightarrow> nn_model \<Rightarrow> optimizer"
  get_tensorboard_formatter :: "pyval \<Rightarrow> bool"
  load_checkpoint :: "pyval \<Rightarrow> nn_model \<Rightarrow> optimizer option \<Rightarrow> py_exn + loaded"

text \<open>\<open>os.path.split(p)[0]\<close> on a value: only a string is a path.\<close>

definition split_head :: "pyval \<Rightarrow> py_exn + string" where
  "split_head p =
     (case p of
        VStr path \<Rightarrow> Inr (path_split_head path)
      | _ \<Rightarrow> Inl (TypeError ''expected str, bytes or os.PathLike object''))"

text \<open>
  \<open>__init__\<close>, on arguments already bound; \<open>higher_is_better\<close> is the truth value of the
  argument, all that is ever read of it. The maxima are stored as they come. Line 149
  joins \<open>checkpoint_dir\<close> with \<open>logs\<close>, which raises on anything but a string. \<open>resume\<close>
  and \<open>pre_trained\<close> are tested against \<open>None\<close>. \<open>checkpoint_dir\<close> is a named parameter,
  so it is never among \<open>kwargs\<close> and the test at line 172 always holds.
\<close>

definition UNet3DTrainer_init ::
  "trainer_env \<Rightarrow> nn_model \<Rightarrow> optimizer \<Rightarrow> pyval \<Rightarrow> batch list \<Rightarrow> pyval \<Rightarrow> 'n \<Rightarrow> 'n \<Rightarrow> bool
   \<Rightarrow> bool \<Rightarrow> pyval \<Rightarrow> pyval \<Rightarrow> 'c \<Rightarrow> py_exn + ('c, 'n) trainer" where
  "UNet3DTrainer_init env m opt dev loaders dir_arg max_epochs max_iterations higher_is_better
     has_formatter resume pre_trained cfg =
     (case dir_arg of
        VStr dir \<Rightarrow>
          (let t = \<lparr> model = m, optimizer = opt, device = dev, loaders_train = loaders,
                     checkpoint_dir = dir, max_num_epochs = max_epochs,
                     max_num_iterations = max_iterations,
                     eval_score_higher_is_better = higher_is_better, config = cfg,
                     best_eval_score = initial_best_eval_score higher_is_better,
                     num_iterations = 0, num_epochs = 0 \<rparr>
           in if \<not> has_formatter
              then Inl (AssertionError ''TensorboardFormatter must be provided'')
              else if resume \<noteq> VNone
              then (case load_checkpoint env resume m (Some opt) of
                      Inl e \<Rightarrow> Inl e
                    | Inr state \<Rightarrow>
                        (case split_head resume of
                           Inl e \<Rightarrow> Inl e
                         | Inr head \<Rightarrow>
                             Inr (t\<lparr>model := ld_model state,
                                    optimizer := (case ld_optimizer state of
                                                    Some opt' \<Rightarrow> opt' | None \<Rightarrow> opt),
                                    best_eval_score := ld_best_eval_score state,
                                    num_iterations := ld_num_iterations state,
                                    num_epochs := ld_num_epochs state,
                                    checkpoint_dir := head\<rparr>)))
              else if pre_trained \<noteq> VNone
              then (case load_checkpoint env pre_trained m None of
                      Inl e \<Rightarrow> Inl e
                    | Inr state \<Rightarrow>
                        (case split_head pre_trained of
                           Inl e \<Rightarrow> Inl e
                         | Inr head \<Rightarrow> Inr (t\<lparr>model := ld_model state, checkpoint_dir := head\<rparr>)))
              else Inr t)
      | _ \<Rightarrow> Inl (TypeError ''expected str, bytes or os.PathLike object''))"

text \<open>Lines 24 to 27: \<open>device.type\<close> is read only when there is more than one CUDA device.\<close>

definition to_data_parallel :: "trainer_env \<Rightarrow> pyval \<Rightarrow> nn_model \<Rightarrow> py_exn + nn_model" where
  "to_data_parallel env dev m =
     (if cuda_device_count env > 1
      then (case dev of
              VDevice d \<Rightarrow> Inr (if dev_type d \<noteq> ''cpu'' then m\<lparr>data_parallel := True\<rparr> else m)
            | _ \<Rightarrow> Inl (AttributeError ''type''))
      else Inr m)"

text \<open>
  Lines 33 to 39: the model's conversion to the channels-last-3d format, inside
  \<open>try\<close> with a handler for \<open>RuntimeError\<close> only. After a caught exception the name
  \<open>model\<close> still holds the module, as the failed call left it.
\<close>

definition model_channels_last ::
  "trainer_env \<Rightarrow> heap \<Rightarrow> pyval \<Rightarrow> pyval \<Rightarrow> nn_model \<Rightarrow> out list \<times> (py_exn + nn_model)" where
  "model_channels_last env h cl dev m =
     (if truthy h cl \<and> ne_xpu dev
      then (case model_to_channels_last env m of
              (None, m') \<Rightarrow> ([PrintLine ''--- use NDHWC format''], Inr m')
            | (Some (RuntimeError msg), m') \<Rightarrow>
                ([PrintLine ''---- use normal format'', PrintFailedNHWC (RuntimeError msg)],
                 Inr m')
            | (Some e, m') \<Rightarrow> ([], Inl e))
      else ([], Inr m))"

text \<open>Lines 54 to 57.\<close>

definition xpu_optimize ::
  "dict \<Rightarrow> pyval \<Rightarrow> nn_model \<Rightarrow> optimizer \<Rightarrow> out list \<times> (py_exn + nn_model \<times> optimizer)" where
  "xpu_optimize cfg dev m opt =
     (if str_is_xpu dev
      then (case lookup cfg ''precision'' of
              Inl e \<Rightarrow> ([], Inl e)
            | Inr p \<Rightarrow> ([PrintLine ''---- enable xpu optimize''],
                        Inr (m\<lparr>xpu_optimized := Some (datatype_of_val p)\<rparr>, opt)))
      else ([], Inr (m, opt)))"

text \<open>\<open>d.pop(k, None)\<close> on the dictionary at an address: the value and the heap without the key.\<close>

definition pop_item :: "heap \<Rightarrow> addr \<Rightarrow> string \<Rightarrow> pyval \<times> heap" where
  "pop_item h r k = (case h r k of None \<Rightarrow> VNone | Some v \<Rightarrow> v, del_item h r k)"

text \<open>
  Lines 62 to 80: the three \<open>pop\<close>s on \<open>trainer_config\<close>, which change the dictionary that
  \<open>config['trainer']\<close> holds, and the call of the constructor with the rest as keyword
  arguments. A key that repeats a keyword the call already passes, or a missing required
  parameter, is a \<open>TypeError\<close> of the call. The result is the heap the pops leave, and
  the trainer or the exception.
\<close>

definition construct_trainer ::
  "trainer_env \<Rightarrow> heap \<Rightarrow> addr \<Rightarrow> pyval \<Rightarrow> nn_model \<Rightarrow> optimizer \<Rightarrow> pyval \<Rightarrow> batch list
   \<Rightarrow> heap \<times> (py_exn + (addr, pyval) trainer)" where
  "construct_trainer env h cfg trainer_config m opt dev loaders =
     (case trainer_config of
        VRef tr \<Rightarrow>
          (let (formatter_config, h1) = pop_item h tr ''tensorboard_formatter'';
               has_formatter = get_tensorboard_formatter env formatter_config;
               (resume, h2) = pop_item h1 tr ''resume'';
               (pre_trained, h3) = pop_item h2 tr ''pre_trained'';
               kw = h3 tr
           in if \<exists>k \<in> set [''model'', ''optimizer'', ''lr_scheduler'', ''loss_criterion'',
                               ''eval_criterion'', ''tensorboard_formatter'', ''device'',
                               ''loaders'', ''resume'', ''pre_trained'', ''config''].
                     kw k \<noteq> None
              then (h3, Inl (TypeError ''got multiple values for keyword argument''))
              else (case (kw ''checkpoint_dir'', kw ''max_num_epochs'',
                          kw ''max_num_iterations'') of
                      (Some dir, Some max_epochs, Some max_iterations) \<Rightarrow>
                        (h3, UNet3DTrainer_init env m opt dev loaders dir max_epochs
                               max_iterations
                               (case kw ''eval_score_higher_is_better'' of
                                  None \<Rightarrow> True | Some v \<Rightarrow> truthy h3 v)
                               has_formatter resume pre_trained cfg)
                    | _ \<Rightarrow> (h3, Inl (TypeError ''missing required positional arguments''))))
      | VList xs \<Rightarrow> (h, Inl (TypeError ''pop expected at most 1 argument, got 2''))
      | _ \<Rightarrow> (h, Inl (AttributeError ''pop'')))"

text \<open>
  \<open>create_trainer\<close> on the configuration at an address: what it prints, the heap it
  leaves, and the trainer or the exception. The first part runs up to the model's
  conversion at lines 33 to 39; \<open>create_trainer_tail\<close> is lines 41 to 80, on the model the
  conversion block left and after what it printed.
\<close>

definition create_trainer_tail ::
  "trainer_env \<Rightarrow> heap \<Rightarrow> addr \<Rightarrow> pyval \<Rightarrow> nn_model \<Rightarrow> out list
   \<Rightarrow> out list \<times> heap \<times> (py_exn + (addr, pyval) trainer)" where
  "create_trainer_tail env h cfg dev m2 out1 =
     (case lookup (h cfg) ''optimizer'' of
        Inl e \<Rightarrow> (out1, h, Inl e)
      | Inr optimizer_config \<Rightarrow>
     (case xpu_optimize (h cfg) dev m2 (create_optimizer env h optimizer_config m2) of
        (out2, Inl e) \<Rightarrow> (out1 @ out2, h, Inl e)
      | (out2, Inr (m3, opt)) \<Rightarrow>
     (case lookup (h cfg) ''trainer'' of
        Inl e \<Rightarrow> (out1 @ out2, h, Inl e)
      | Inr trainer_config \<Rightarrow>
          (case construct_trainer env h cfg trainer_config m3 opt dev
                  (get_train_loaders env h cfg) of
             (h', r) \<Rightarrow> (out1 @ out2, h', r)))))"

definition create_trainer ::
  "trainer_env \<Rightarrow> heap \<Rightarrow> addr \<Rightarrow> out list \<times> heap \<times> (py_exn + (addr, pyval) trainer)" where
  "create_trainer env h cfg =
     (case lookup (h cfg) ''model'' of
        Inl e \<Rightarrow> ([], h, Inl e)
      | Inr model_config \<Rightarrow>
     (case lookup (h cfg) ''device'' of
        Inl e \<Rightarrow> ([], h, Inl e)
      | Inr dev \<Rightarrow>
     (case to_data_parallel env dev (get_model env h model_config) of
        Inl e \<Rightarrow> ([], h, Inl e)
      | Inr m1 \<Rightarrow>
     (case lookup (h cfg) ''channels_last'' of
        Inl e \<Rightarrow> ([], h, Inl e)
      | Inr cl \<Rightarrow>
     (case model_channels_last env h cl dev (m1\<lparr>model_device := Some dev\<rparr>) of
        (out1, Inl e) \<Rightarrow> (out1, h, Inl e)
      | (out1, Inr m2) \<Rightarrow> create_trainer_tail env h cfg dev m2 out1)))))"

section \<open>trainer.py: checkpoints\<close>

text \<open>
  The record \<open>_save_checkpoint\<close> builds is a dictionary literal: its keys in order, each
  with an integer, a state dict or a score. The file system maps a path to the record
  saved there.
\<close>

datatype ckpt_val = CInt int | CStateDict state_dict | CScore score

type_synonym checkpoint = "(string \<times> ckpt_val) list"

type_synonym file_system = "string \<Rightarrow> checkpoint option"

text \<open>
  Modelled from the spec: \<open>utils.save_checkpoint\<close> is called by \<open>_save_checkpoint\<close> and is
  not among the sources. The spec names the checkpoint files: \<open>last_checkpoint.pytorch\<close>
  and a best-score variant, written in the framework's serialization format. So the
  record is stored under \<open>last_checkpoint.pytorch\<close> in the directory, and under the
  best-score file's name as well when \<open>is_best\<close> holds; that name is a parameter.
\<close>

definition save_checkpoint ::
  "string \<Rightarrow> checkpoint \<Rightarrow> bool \<Rightarrow> string \<Rightarrow> file_system \<Rightarrow> file_system" where
  "save_checkpoint best_name state is_best dir fs =
     (let fs' = fs(path_join dir ''last_checkpoint.pytorch'' \<mapsto> state)
      in if is_best then fs'(path_join dir best_name \<mapsto> state) else fs')"

text \<open>\<open>_save_checkpoint\<close>, lines 462 to 479: the record, then the method.\<close>

definition checkpoint_state :: "('c, 'n) trainer \<Rightarrow> checkpoint" where
  "checkpoint_state t =
     (let sd = (if data_parallel (model t) then state_dict (module (model t))
                else state_dict (model t))
      in [(''num_epochs'', CInt (num_epochs t + 1)),
          (''num_iterations'', CInt (num_iterations t)),
          (''model_state_dict'', CStateDict sd),
          (''best_eval_score'', CScore (best_eval_score t)),
          (''optimizer_state_dict'', CStateDict (opt_state (optimizer t)))])"

text \<open>The result is the path that the method logs and the file system it leaves.\<close>

definition UNet3DTrainer_save_checkpoint ::
  "string \<Rightarrow> ('c, 'n) trainer \<Rightarrow> bool \<Rightarrow> file_system \<Rightarrow> string \<times> file_system" where
  "UNet3DTrainer_save_checkpoint best_name t is_best fs =
     (let last_file_path = path_join (checkpoint_dir t) ''last_checkpoint.pytorch''
      in (last_file_path,
          save_checkpoint best_name (checkpoint_state t) is_best (checkpoint_dir t) fs))"

section \<open>Properties of a run's calls\<close>

text \<open>
  Where a pass of the loop body stands with respect to its optimizer step: before it,
  after it with no device synchronization yet, or after a synchronization that followed
  it. The clock reading that gives the pass's duration is in order only in the last
  position, and starts the next pass.
\<close>

datatype sync_phase = BeforeStep | Stepped | Synced

fun sync_step :: "sync_phase \<Rightarrow> event \<Rightarrow> sync_phase option" where
  "sync_step p OptimizerStep = Some Stepped"
| "sync_step p (Synchronize d) = Some (if p = BeforeStep then BeforeStep else Synced)"
| "sync_step p (TimeTime AtDuration) = (if p = Synced then Some BeforeStep else None)"
| "sync_step p e = Some p"

fun sync_run :: "sync_phase \<Rightarrow> event list \<Rightarrow> sync_phase option" where
  "sync_run p [] = Some p"
| "sync_run p (e # es) =
     (case sync_step p e of None \<Rightarrow> None | Some p' \<Rightarrow> sync_run p' es)"

text \<open>
  No duration is taken before the device synchronization of its pass: the calls, read
  from the start of \<open>train\<close>, never reach a duration reading out of order.
\<close>

definition sync_before_timing :: "event list \<Rightarrow> bool" where
  "sync_before_timing evs = (sync_run BeforeStep evs \<noteq> None)"








text \<open>The calls of the profiling interfaces, and a run's calls without them.\<close>

fun is_profiling :: "event \<Rightarrow> bool" where
  "is_profiling ProfilerLegacyEnter = True"
| "is_profiling ProfilerLegacyExit = True"
| "is_profiling (ProfilerEnter acts) = True"
| "is_profiling ProfilerStep = True"
| "is_profiling ProfilerExit = True"
| "is_profiling e = False"

definition without_profiling :: "event list \<Rightarrow> event list" where
  "without_profiling evs = filter (\<lambda>e. \<not> is_profiling e) evs"

text \<open>The duration the generic-profiled and the unprofiled loop bodies compute for a batch.\<close>

definition batch_duration :: "batch \<Rightarrow> real" where
  "batch_duration b = time_end b - time_start b - (time_cl_end b - time_cl_start b)"

text \<open>
  A conversion to the channels-last-3d format that does not end the caller: it succeeds,
  or it raises the \<open>RuntimeError\<close> that the handler at the conversion site catches.
\<close>

definition conversion_returns :: "py_exn option \<Rightarrow> bool" where
  "conversion_returns r =
     (case r of None \<Rightarrow> True | Some (RuntimeError msg) \<Rightarrow> True | Some e \<Rightarrow> False)"

text \<open>A batch on which the loop body runs to its end: it unpacks and its conversion returns.\<close>

definition batch_returns :: "batch \<Rightarrow> bool" where
  "batch_returns b =
     ((batch_len b = 2 \<or> batch_len b = 3) \<and> conversion_returns (input_to_channels_last b))"

text \<open>
  The effect of one complete pass of the loop body on the loop's variables: the pass
  at iteration \<open>i\<close> is counted when \<open>num_warmup \<le> i < last_iter\<close>, and the loop breaks
  without incrementing when \<open>i \<ge> num_iter\<close>.
\<close>

definition counted :: "run_config \<Rightarrow> int \<Rightarrow> int \<Rightarrow> bool" where
  "counted cfg last_iter i = (cfg_num_warmup cfg \<le> i \<and> i < last_iter)"

definition pass_state :: "run_config \<Rightarrow> int \<Rightarrow> real \<Rightarrow> loop_state \<Rightarrow> loop_state" where
  "pass_state cfg last_iter duration s =
     \<lparr> ls_num_iterations =
         (if cfg_num_iter cfg \<le> ls_num_iterations s then ls_num_iterations s
          else ls_num_iterations s + 1),
       ls_total_time =
         ls_total_time s + (if counted cfg last_iter (ls_num_iterations s) then duration else 0),
       ls_total_count =
         ls_total_count s + (if counted cfg last_iter (ls_num_iterations s) then 1 else 0) \<rparr>"

definition pass_outcome :: "run_config \<Rightarrow> loop_state \<Rightarrow> outcome" where
  "pass_outcome cfg s = (if cfg_num_iter cfg \<le> ls_num_iterations s then Break else Continue)"

text \<open>
  The sum of the durations of the batches at positions \<open>num_warmup\<close> up to, and not
  including, \<open>num_iter - 1\<close> of the train loader.
\<close>

definition counted_time :: "(run_config, int) trainer \<Rightarrow> real" where
  "counted_time t =
     (\<Sum>k = nat (cfg_num_warmup (config t))..<nat (cfg_num_iter (config t) - 1).
        batch_duration (loaders_train t ! k))"

section \<open>Worked inputs\<close>

text \<open>
  Concrete objects on which the theorems below are instantiated: a batch that takes a
  given time, a small model, a configuration and a trainer over given batches.
\<close>

definition a_batch :: "real \<Rightarrow> batch" where
  "a_batch d =
     \<lparr> batch_len = 2, input_to_channels_last = None, time_start = 0, time_cl_start = 0,
       time_cl_end = 0, time_end = d \<rparr>"

definition a_model :: nn_model where
  "a_model =
     \<lparr> data_parallel = False, module_state = [(''final_conv.weight'', [1, 2])],
       model_device = None, param_formats = [Contiguous], xpu_optimized = None \<rparr>"

definition a_config :: "bool \<Rightarrow> string \<Rightarrow> int \<Rightarrow> int \<Rightarrow> int \<Rightarrow> run_config" where
  "a_config prof dev n w bs =
     \<lparr> cfg_num_iter = n, cfg_num_warmup = w, cfg_precision = ''float32'', cfg_profile = prof,
       cfg_device_str = dev, cfg_channels_last = 1, cfg_batch_size = bs \<rparr>"

definition a_trainer :: "'c \<Rightarrow> batch list \<Rightarrow> ('c, int) trainer" where
  "a_trainer cfg batches =
     \<lparr> model = a_model, optimizer = \<lparr> opt_state = [(''step'', [0])] \<rparr>,
       device = VDevice \<lparr> dev_type = ''cpu'', dev_index = None \<rparr>,
       loaders_train = batches, checkpoint_dir = ''checkpoints'', max_num_epochs = 5,
       max_num_iterations = 1000, eval_score_higher_is_better = True, config = cfg,
       best_eval_score = NegInf, num_iterations = 0, num_epochs = 0 \<rparr>"

definition a_torch_env :: torch_env where
  "a_torch_env =
     \<lparr> cuda_is_available = False,
       torch_device = (\<lambda>s. if s = ''cpu'' \<or> s = ''cuda'' \<or> s = ''xpu''
                             then Inr \<lparr> dev_type = s, dev_index = None \<rparr>
                             else Inl (RuntimeError ''Expected one of cpu, cuda, xpu device type'')) \<rparr>"

text \<open>
  A model of two convolutions, and helpers for \<open>create_trainer\<close> around a given
  conversion of the model.
\<close>

definition two_conv_model :: nn_model where
  "two_conv_model =
     \<lparr> data_parallel = False,
       module_state = [(''conv1.weight'', [1, 2]), (''final_conv.weight'', [3])],
       model_device = None, param_formats = [Contiguous, Contiguous],
       xpu_optimized = None \<rparr>"

definition a_trainer_env :: "(nn_model \<Rightarrow> py_exn option \<times> nn_model) \<Rightarrow> trainer_env" where
  "a_trainer_env conversion =
     \<lparr> cuda_device_count = 0, get_model = (\<lambda>h c. two_conv_model),
       model_to_channels_last = conversion,
       get_train_loaders = (\<lambda>h c. [a_batch 1]),
       create_optimizer = (\<lambda>h c m. \<lparr> opt_state = [(''step'', [0])] \<rparr>),
       get_tensorboard_formatter = (\<lambda>c. True),
       load_checkpoint = (\<lambda>path m opt. Inl (RuntimeError ''no such file'')) \<rparr>"

text \<open>
  Conversions of a model: one that converts every parameter, and one that raises at the
  second parameter, the first one converted.
\<close>

definition converts :: "nn_model \<Rightarrow> py_exn option \<times> nn_model" where
  "converts m = (None, m\<lparr>param_formats := map (\<lambda>f. ChannelsLast3d) (param_formats m)\<rparr>)"

definition fails_at_second :: "nn_model \<Rightarrow> py_exn option \<times> nn_model" where
  "fails_at_second m =
     (Some (RuntimeError ''required rank 5 tensor to use channels_last_3d format''),
      m\<lparr>param_formats := (case param_formats m of
                             [] \<Rightarrow> []
                           | f # fs \<Rightarrow> ChannelsLast3d # fs)\<rparr>)"

text \<open>
  Heaps for configurations: the empty heap with dictionaries put at given addresses, and
  a complete configuration for the cpu at address 0 with its sections at 1 to 4.
\<close>

definition empty_heap :: heap where
  "empty_heap = (\<lambda>r. Map.empty)"

definition a_config_heap :: heap where
  "a_config_heap =
     empty_heap
       (0 := [''model'' \<mapsto> VRef 1,
              ''device'' \<mapsto> VDevice \<lparr> dev_type = ''cpu'', dev_index = None \<rparr>,
              ''channels_last'' \<mapsto> VInt 1, ''optimizer'' \<mapsto> VRef 2,
              ''trainer'' \<mapsto> VRef 3, ''loaders'' \<mapsto> VRef 4],
        3 := [''checkpoint_dir'' \<mapsto> VStr ''checkpoints'', ''max_num_epochs'' \<mapsto> VInt 5,
              ''max_num_iterations'' \<mapsto> VInt 1000, ''resume'' \<mapsto> VNone])"

text \<open>
  Heaps after parsing a YAML file, the mapping of the file at address 0. The first file
  has a \<open>loaders\<close> section, a \<open>model\<close> section and \<open>device: cuda:0\<close>. The second one
  has \<open>loaders: &l {num_workers: 8}\<close> and \<open>val_loaders: *l\<close>: the two keys hold one
  mapping.
\<close>

definition a_yaml_heap :: heap where
  "a_yaml_heap =
     empty_heap
       (0 := [''loaders'' \<mapsto> VRef 1, ''model'' \<mapsto> VRef 2, ''device'' \<mapsto> VStr ''cuda:0''],
        1 := [''num_workers'' \<mapsto> VInt 8])"

definition an_alias_heap :: heap where
  "an_alias_heap =
     empty_heap
       (0 := [''loaders'' \<mapsto> VRef 1, ''val_loaders'' \<mapsto> VRef 1],
        1 := [''num_workers'' \<mapsto> VInt 8])"

section \<open>The performance counters of an epoch\<close>

text \<open>
  A pass of either loop body that has a counter for the channels-last conversion leaves
  the loop variables as \<open>pass_state\<close> says and prints that it is counted exactly when it
  is.
\<close>

lemma iteration_unprofiled_pass:
  assumes "batch_returns b"
  shows "\<exists>evs. iteration_unprofiled cfg L dt b s =
       (evs, pass_state cfg L (batch_duration b) s, pass_outcome cfg s)
     \<and> (\<forall>j. Print (PrintCounted j) \<in> set evs \<longleftrightarrow> j = ls_num_iterations s \<and> counted cfg L j)"
  using assms
  by (auto simp: iteration_unprofiled_def batch_returns_def conversion_returns_def
      split_training_batch_def Let_def batch_duration_def pass_state_def pass_outcome_def
      counted_def split: option.splits py_exn.splits)

lemma iteration_profiled_pass:
  assumes "batch_returns b"
  shows "\<exists>evs. iteration_profiled cfg L dt b s =
       (evs, pass_state cfg L (batch_duration b) s, pass_outcome cfg s)
     \<and> (\<forall>j. Print (PrintCounted j) \<in> set evs \<longleftrightarrow> j = ls_num_iterations s \<and> counted cfg L j)"
  using assms
  by (auto simp: iteration_profiled_def batch_returns_def conversion_returns_def
      split_training_batch_def Let_def batch_duration_def pass_state_def pass_outcome_def
      counted_def split: option.splits py_exn.splits)

lemma train_loop_totals:
  assumes body: "\<And>b s. batch_returns b \<Longrightarrow>
       \<exists>evs. body b s = (evs, pass_state cfg L (batch_duration b) s, pass_outcome cfg s)
         \<and> (\<forall>j. Print (PrintCounted j) \<in> set evs \<longleftrightarrow> j = ls_num_iterations s \<and> counted cfg L j)"
    and "\<forall>b \<in> set bs. batch_returns b"
    and "ls_num_iterations s \<le> cfg_num_iter cfg"
    and "cfg_num_iter cfg - ls_num_iterations s < int (length bs)"
    and "L \<le> cfg_num_iter cfg"
  shows "\<exists>evs. train_loop body bs s =
     (evs,
      \<lparr> ls_num_iterations = cfg_num_iter cfg,
        ls_total_time = ls_total_time s +
          sum_list (map batch_duration
            (take (nat (L - max (cfg_num_warmup cfg) (ls_num_iterations s)))
               (drop (nat (max (cfg_num_warmup cfg) (ls_num_iterations s) - ls_num_iterations s)) bs))),
        ls_total_count = ls_total_count s +
          max 0 (L - max (cfg_num_warmup cfg) (ls_num_iterations s)) \<rparr>,
      None)
     \<and> (\<forall>j. Print (PrintCounted j) \<in> set evs \<longleftrightarrow> ls_num_iterations s \<le> j \<and> counted cfg L j)"
  using assms(2-)
proof (induction bs arbitrary: s)
  case Nil
  then show ?case by simp
next
  case (Cons b bs)
  let ?i = "ls_num_iterations s"
  let ?N = "cfg_num_iter cfg"
  let ?W = "cfg_num_warmup cfg"
  from Cons.prems have br: "batch_returns b" by simp
  from body [OF br, of s] obtain ev where
    ev: "body b s = (ev, pass_state cfg L (batch_duration b) s, pass_outcome cfg s)"
    and evc: "\<And>j. Print (PrintCounted j) \<in> set ev \<longleftrightarrow> j = ?i \<and> counted cfg L j" by blast
  show ?case
  proof (cases "?N \<le> ?i")
    case True
    with Cons.prems have eq: "?i = ?N" by simp
    have "max ?W ?i \<ge> L" using eq Cons.prems by simp
    moreover have "\<And>j. (j = ?i \<and> counted cfg L j) \<longleftrightarrow> (?i \<le> j \<and> counted cfg L j)"
      using eq Cons.prems(4) by (auto simp: counted_def)
    ultimately show ?thesis
      using ev evc eq Cons.prems
      by (simp add: pass_state_def pass_outcome_def counted_def)
  next
    case False
    let ?s' = "pass_state cfg L (batch_duration b) s"
    have i': "ls_num_iterations ?s' = ?i + 1" using False by (simp add: pass_state_def)
    have p1: "\<forall>b \<in> set bs. batch_returns b" using Cons.prems by simp
    have p2: "ls_num_iterations ?s' \<le> ?N" using False i' by simp
    have p3: "?N - ls_num_iterations ?s' < int (length bs)" using Cons.prems i' by simp
    from Cons.IH [OF p1 p2 p3 Cons.prems(4)] obtain evs where
      evs: "train_loop body bs ?s' =
        (evs,
         \<lparr> ls_num_iterations = ?N,
           ls_total_time = ls_total_time ?s' +
             sum_list (map batch_duration
               (take (nat (L - max ?W (ls_num_iterations ?s')))
                  (drop (nat (max ?W (ls_num_iterations ?s') - ls_num_iterations ?s')) bs))),
           ls_total_count = ls_total_count ?s' + max 0 (L - max ?W (ls_num_iterations ?s')) \<rparr>,
         None)"
      and evsc: "\<And>j. Print (PrintCounted j) \<in> set evs \<longleftrightarrow> ?i + 1 \<le> j \<and> counted cfg L j"
      unfolding i' by blast
    have cnt_all: "\<And>j. Print (PrintCounted j) \<in> set (ev @ evs) \<longleftrightarrow> ?i \<le> j \<and> counted cfg L j"
      using evc evsc by auto
    have loop: "train_loop body (b # bs) s =
        (case train_loop body bs ?s' of (evs, s'', r) \<Rightarrow> (ev @ evs, s'', r))"
      using ev False by (simp add: pass_outcome_def)
    consider (warm) "?i < ?W" | (cnt) "?W \<le> ?i" "?i < L" | (late) "?W \<le> ?i" "L \<le> ?i"
      by linarith
    then have tot: "train_loop body (b # bs) s =
     (ev @ evs,
      \<lparr> ls_num_iterations = ?N,
        ls_total_time = ls_total_time s +
          sum_list (map batch_duration
            (take (nat (L - max ?W ?i)) (drop (nat (max ?W ?i - ?i)) (b # bs)))),
        ls_total_count = ls_total_count s + max 0 (L - max ?W ?i) \<rparr>,
      None)"
    proof cases
      case warm
      then have d: "nat (max ?W ?i - ?i) = Suc (nat (max ?W (?i + 1) - (?i + 1)))" by simp
      have m: "max ?W (?i + 1) = max ?W ?i" using warm by simp
      show ?thesis
        using loop evs warm i' d m
        by (simp add: pass_state_def counted_def)
    next
      case cnt
      then have t: "nat (L - max ?W ?i) = Suc (nat (L - max ?W (?i + 1)))" by simp
      have m: "max ?W ?i = ?i" "max ?W (?i + 1) = ?i + 1" using cnt by simp_all
      show ?thesis
        using loop evs cnt i' t m
        by (simp add: pass_state_def counted_def)
    next
      case late
      then have m: "max ?W ?i = ?i" "max ?W (?i + 1) = ?i + 1" by simp_all
      show ?thesis
        using loop evs late i' m
        by (simp add: pass_state_def counted_def)
    qed
    show ?thesis using tot cnt_all by blast
  qed
qed

lemma sum_list_take_drop:
  "m + n \<le> length xs \<Longrightarrow>
   sum_list (map f (take n (drop m xs))) = (\<Sum>k = m..<m + n. (f (xs ! k) :: real))"
proof -
  assume a: "m + n \<le> length xs"
  have len: "length (take n (drop m xs)) = n" using a by simp
  have "sum_list (map f (take n (drop m xs))) =
        (\<Sum>i = 0..<n. map f (take n (drop m xs)) ! i)"
    using len sum_list_sum_nth [of "map f (take n (drop m xs))"] by simp
  also have "\<dots> = (\<Sum>i = 0..<n. f (xs ! (m + i)))"
    using a by (intro sum.cong refl) simp
  also have "\<dots> = (\<Sum>k = m..<m + n. f (xs ! k))"
    using sum.shift_bounds_nat_ivl [of "\<lambda>k. f (xs ! k)" 0 m n] by (simp add: add.commute)
  finally show ?thesis .
qed

lemma train_unprofiled_returns:
  assumes "\<not> cfg_profile (config t)"
    and "train_loop (iteration_unprofiled (config t)
            (min (int (length (loaders_train t))) (cfg_num_iter (config t)) - 1)
            (datatype_of (cfg_precision (config t)))) (loaders_train t)
            \<lparr> ls_num_iterations = num_iterations t, ls_total_time = 0, ls_total_count = 0 \<rparr>
         = (evs, s, None)"
    and "epoch_perf (cfg_batch_size (config t)) (ls_total_time s) (ls_total_count s)
         = Inr (latency, perf)"
  shows "train t =
     ([ModelTrain] @ evs @
      [Print (PrintTotal (ls_total_time s) (ls_total_count s)),
       Print (PrintLatency latency), Print (PrintThroughput perf)],
      t\<lparr>num_iterations := ls_num_iterations s\<rparr>, Inr True)"
  using assms by (simp add: train_def Let_def)

lemma train_profiled_returns:
  assumes "cfg_profile (config t)" and "cfg_device_str (config t) \<noteq> ''xpu''"
    and "train_loop (iteration_profiled (config t)
            (min (int (length (loaders_train t))) (cfg_num_iter (config t)) - 1)
            (datatype_of (cfg_precision (config t)))) (loaders_train t)
            \<lparr> ls_num_iterations = num_iterations t, ls_total_time = 0, ls_total_count = 0 \<rparr>
         = (evs, s, None)"
    and "epoch_perf (cfg_batch_size (config t)) (ls_total_time s) (ls_total_count s)
         = Inr (latency, perf)"
  shows "train t =
     ([ModelTrain] @
      ([ProfilerEnter (if cfg_device_str (config t) = ''cuda'' then [''CPU'', ''CUDA'']
                       else [''CPU''])] @ evs @ [ProfilerExit]) @
      [Print (PrintTotal (ls_total_time s) (ls_total_count s)),
       Print (PrintLatency latency), Print (PrintThroughput perf)],
      t\<lparr>num_iterations := ls_num_iterations s\<rparr>, Inr True)"
  using assms by (simp add: train_def Let_def)

lemma train_loop_from_start:
  assumes body: "\<And>b s. batch_returns b \<Longrightarrow>
       \<exists>evs. body b s = (evs, pass_state cfg L (batch_duration b) s, pass_outcome cfg s)
         \<and> (\<forall>j. Print (PrintCounted j) \<in> set evs \<longleftrightarrow> j = ls_num_iterations s \<and> counted cfg L j)"
    and ret: "\<forall>b \<in> set bs. batch_returns b"
    and len: "cfg_num_iter cfg + 1 \<le> int (length bs)"
    and warm0: "0 \<le> cfg_num_warmup cfg"
    and warm: "cfg_num_warmup cfg + 1 < cfg_num_iter cfg"
    and L: "L = cfg_num_iter cfg - 1"
  shows "\<exists>evs. train_loop body bs \<lparr> ls_num_iterations = 0, ls_total_time = 0, ls_total_count = 0 \<rparr> =
     (evs,
      \<lparr> ls_num_iterations = cfg_num_iter cfg,
        ls_total_time = (\<Sum>k = nat (cfg_num_warmup cfg)..<nat (cfg_num_iter cfg - 1).
                            batch_duration (bs ! k)),
        ls_total_count = cfg_num_iter cfg - cfg_num_warmup cfg - 1 \<rparr>,
      None)
     \<and> (\<forall>j. Print (PrintCounted j) \<in> set evs \<longleftrightarrow>
            cfg_num_warmup cfg \<le> j \<and> j < cfg_num_iter cfg - 1)"
proof -
  let ?N = "cfg_num_iter cfg"
  let ?W = "cfg_num_warmup cfg"
  define s0 where "s0 = \<lparr> ls_num_iterations = 0, ls_total_time = 0, ls_total_count = 0 \<rparr>"
  have i0: "ls_num_iterations s0 = 0" "ls_total_time s0 = 0" "ls_total_count s0 = 0"
    by (simp_all add: s0_def)
  have h2: "ls_num_iterations s0 \<le> ?N" using i0 warm0 warm by simp
  have h3: "?N - ls_num_iterations s0 < int (length bs)" using i0 len by simp
  have h4: "L \<le> ?N" using L by simp
  from train_loop_totals [of body cfg L bs s0, OF body ret h2 h3 h4]
  obtain evs where
    run: "train_loop body bs s0 =
     (evs,
      \<lparr> ls_num_iterations = ?N,
        ls_total_time = ls_total_time s0 +
          sum_list (map batch_duration
            (take (nat (L - max ?W (ls_num_iterations s0)))
               (drop (nat (max ?W (ls_num_iterations s0) - ls_num_iterations s0)) bs))),
        ls_total_count = ls_total_count s0 + max 0 (L - max ?W (ls_num_iterations s0)) \<rparr>,
      None)"
    and c: "\<And>j. Print (PrintCounted j) \<in> set evs \<longleftrightarrow> ls_num_iterations s0 \<le> j \<and> counted cfg L j"
    by blast
  have mx: "max ?W 0 = ?W" using warm0 by simp
  have le: "nat ?W + nat (L - ?W) \<le> length bs" using L len warm0 warm by linarith
  have up: "nat ?W + nat (L - ?W) = nat (?N - 1)" using L warm0 warm by linarith
  have sum: "sum_list (map batch_duration (take (nat (L - ?W)) (drop (nat ?W) bs))) =
       (\<Sum>k = nat ?W..<nat (?N - 1). batch_duration (bs ! k))"
    using sum_list_take_drop [OF le, of batch_duration] up by simp
  have cnt: "max 0 (L - ?W) = ?N - ?W - 1" using L warm by simp
  have run': "train_loop body bs s0 =
     (evs,
      \<lparr> ls_num_iterations = ?N,
        ls_total_time = (\<Sum>k = nat ?W..<nat (?N - 1). batch_duration (bs ! k)),
        ls_total_count = ?N - ?W - 1 \<rparr>,
      None)"
    using run by (simp add: i0 mx sum cnt)
  have c': "Print (PrintCounted j) \<in> set evs \<longleftrightarrow> ?W \<le> j \<and> j < ?N - 1" for j
  proof -
    have "Print (PrintCounted j) \<in> set evs \<longleftrightarrow> 0 \<le> j \<and> counted cfg L j"
      using c [of j] by (simp only: i0)
    also have "\<dots> \<longleftrightarrow> ?W \<le> j \<and> j < ?N - 1"
      unfolding counted_def L using warm0 by linarith
    finally show ?thesis .
  qed
  show ?thesis using run' c' unfolding s0_def by blast
qed

text \<open>Evaluating \<open>train\<close> on a concrete trainer unfolds these definitions.\<close>

lemmas train_eval =
  train_def a_trainer_def a_config_def a_batch_def Let_def datatype_of_def
  iteration_unprofiled_def iteration_profiled_def iteration_xpu_profiled_def
  split_training_batch_def epoch_perf_def

text \<open>
  C1, as amended. Take a run of \<open>train\<close> on the generic-profiled or the unprofiled path
  (the xpu-profiled path is left out), with \<open>num_iter = N\<close> and \<open>num_warmup = W\<close>, starting
  at \<open>num_iterations = 0\<close>, over a train loader of at least \<open>N + 1\<close> batches on each of
  which the loop body runs to its end, where \<open>0 \<le> W\<close> and \<open>W + 1 < N\<close>, the batch size is
  not zero and the counted durations do not sum to zero. Then \<open>train\<close> returns \<open>True\<close>
  with \<open>num_iterations = N\<close>; the pass at iteration \<open>j\<close> is counted exactly when
  \<open>W \<le> j < N - 1\<close>; the totals printed are the sum of the durations of those passes and
  their number \<open>N - W - 1\<close>; and the last thing printed is the throughput
  \<open>batch_size * (N - W - 1)\<close> divided by that sum.
\<close>

theorem train_throughput:
  assumes path: "\<not> (cfg_profile (config t) \<and> cfg_device_str (config t) = ''xpu'')"
    and start: "num_iterations t = 0"
    and len: "cfg_num_iter (config t) + 1 \<le> int (length (loaders_train t))"
    and warm0: "0 \<le> cfg_num_warmup (config t)"
    and warm: "cfg_num_warmup (config t) + 1 < cfg_num_iter (config t)"
    and ret: "\<forall>b \<in> set (loaders_train t). batch_returns b"
    and bs: "cfg_batch_size (config t) \<noteq> 0"
    and time: "counted_time t \<noteq> 0"
  shows "\<exists>evs. train t = (evs, t\<lparr>num_iterations := cfg_num_iter (config t)\<rparr>, Inr True)
     \<and> (\<forall>j. Print (PrintCounted j) \<in> set evs \<longleftrightarrow>
            cfg_num_warmup (config t) \<le> j \<and> j < cfg_num_iter (config t) - 1)
     \<and> Print (PrintTotal (counted_time t)
                (cfg_num_iter (config t) - cfg_num_warmup (config t) - 1)) \<in> set evs
     \<and> last evs = Print (PrintThroughput
          (real_of_int (cfg_batch_size (config t))
           * real_of_int (cfg_num_iter (config t) - cfg_num_warmup (config t) - 1)
           / counted_time t))"
proof -
  let ?cfg = "config t"
  let ?N = "cfg_num_iter ?cfg"
  let ?W = "cfg_num_warmup ?cfg"
  let ?bs = "loaders_train t"
  let ?dt = "datatype_of (cfg_precision ?cfg)"
  define L where "L = min (int (length ?bs)) ?N - 1"
  have L: "L = ?N - 1" using len by (simp add: L_def)
  define s where "s = \<lparr> ls_num_iterations = ?N, ls_total_time = counted_time t,
                         ls_total_count = ?N - ?W - 1 \<rparr>"
  have perf: "epoch_perf (cfg_batch_size ?cfg) (ls_total_time s) (ls_total_count s) =
        Inr (counted_time t / real_of_int (?N - ?W - 1) / real_of_int (cfg_batch_size ?cfg) * 1000,
             real_of_int (cfg_batch_size ?cfg) * real_of_int (?N - ?W - 1) / counted_time t)"
    using bs time warm by (simp add: epoch_perf_def Let_def s_def)
  show ?thesis
  proof (cases "cfg_profile ?cfg")
    case True
    with path have dev: "cfg_device_str ?cfg \<noteq> ''xpu''" by simp
    from train_loop_from_start [of "iteration_profiled ?cfg L ?dt" ?cfg L ?bs,
        OF iteration_profiled_pass ret len warm0 warm L]
    obtain evs where
      run: "train_loop (iteration_profiled ?cfg L ?dt) ?bs
              \<lparr> ls_num_iterations = num_iterations t, ls_total_time = 0, ls_total_count = 0 \<rparr>
            = (evs, s, None)"
      and c: "\<And>j. Print (PrintCounted j) \<in> set evs \<longleftrightarrow> ?W \<le> j \<and> j < ?N - 1"
      unfolding s_def counted_time_def start by blast
    from train_profiled_returns [OF True dev run [unfolded L_def] perf]
    show ?thesis using c by (simp add: s_def)
  next
    case False
    from train_loop_from_start [of "iteration_unprofiled ?cfg L ?dt" ?cfg L ?bs,
        OF iteration_unprofiled_pass ret len warm0 warm L]
    obtain evs where
      run: "train_loop (iteration_unprofiled ?cfg L ?dt) ?bs
              \<lparr> ls_num_iterations = num_iterations t, ls_total_time = 0, ls_total_count = 0 \<rparr>
            = (evs, s, None)"
      and c: "\<And>j. Print (PrintCounted j) \<in> set evs \<longleftrightarrow> ?W \<le> j \<and> j < ?N - 1"
      unfolding s_def counted_time_def start by blast
    from train_unprofiled_returns [OF False run [unfolded L_def] perf]
    show ?thesis using c by (simp add: s_def)
  qed
qed

text \<open>
  The theorem at \<open>N = 3\<close>, \<open>W = 0\<close>, batch size 2 and four batches that take 1, 2, 4 and 8
  seconds: passes 0 and 1 are counted, 3 seconds in all, and the throughput is
  \<open>2 * 2 / 3\<close>.
\<close>

theorem train_throughput_witness:
  "last (fst (train (a_trainer (a_config False ''cpu'' 3 0 2)
                      [a_batch 1, a_batch 2, a_batch 4, a_batch 8])))
     = Print (PrintThroughput (4 / 3))
   \<and> Print (PrintTotal 3 2)
       \<in> set (fst (train (a_trainer (a_config False ''cpu'' 3 0 2)
                            [a_batch 1, a_batch 2, a_batch 4, a_batch 8])))
   \<and> snd (snd (train (a_trainer (a_config False ''cpu'' 3 0 2)
                            [a_batch 1, a_batch 2, a_batch 4, a_batch 8]))) = Inr True"
proof -
  let ?t = "a_trainer (a_config False ''cpu'' 3 0 2) [a_batch 1, a_batch 2, a_batch 4, a_batch 8]"
  have ct: "counted_time ?t = 3"
    by (simp add: counted_time_def a_trainer_def a_config_def a_batch_def batch_duration_def
        numeral_2_eq_2)
  have h1: "\<not> (cfg_profile (config ?t) \<and> cfg_device_str (config ?t) = ''xpu'')"
    by (simp add: a_trainer_def a_config_def)
  have h2: "num_iterations ?t = 0" by (simp add: a_trainer_def)
  have h3: "cfg_num_iter (config ?t) + 1 \<le> int (length (loaders_train ?t))"
    by (simp add: a_trainer_def a_config_def)
  have h4: "0 \<le> cfg_num_warmup (config ?t)" by (simp add: a_trainer_def a_config_def)
  have h5: "cfg_num_warmup (config ?t) + 1 < cfg_num_iter (config ?t)"
    by (simp add: a_trainer_def a_config_def)
  have h6: "\<forall>b \<in> set (loaders_train ?t). batch_returns b"
    by (simp add: a_trainer_def a_batch_def batch_returns_def conversion_returns_def)
  have h7: "cfg_batch_size (config ?t) \<noteq> 0" by (simp add: a_trainer_def a_config_def)
  have h8: "counted_time ?t \<noteq> 0" using ct by simp
  from train_throughput [OF h1 h2 h3 h4 h5 h6 h7 h8] obtain evs where
    "train ?t = (evs, ?t\<lparr>num_iterations := cfg_num_iter (config ?t)\<rparr>, Inr True)"
    "Print (PrintTotal (counted_time ?t)
                (cfg_num_iter (config ?t) - cfg_num_warmup (config ?t) - 1)) \<in> set evs"
    "last evs = Print (PrintThroughput
          (real_of_int (cfg_batch_size (config ?t))
           * real_of_int (cfg_num_iter (config ?t) - cfg_num_warmup (config ?t) - 1)
           / counted_time ?t))"
    by blast
  then show ?thesis
    unfolding ct by (simp add: a_trainer_def a_config_def)
qed

text \<open>
  C1 as stated fails. With \<open>N = 3\<close> and \<open>W = - 1\<close> (the flag \<open>--num_warmup -1\<close>), batch size
  1 and four batches of one second each, the claim's conditions hold, passes 0 and 1 are
  counted, and \<open>train\<close> prints a total of 2 seconds over 2 passes and a throughput of 1,
  where the claim gives \<open>N - W - 1 = 3\<close> counted passes and a throughput of \<open>1 * 3 / 2\<close>.
  With a batch size of 0, or with passes that all take no time, the claim's conditions
  hold as well and \<open>train\<close> prints no throughput: it raises \<open>ZeroDivisionError\<close>.
\<close>

theorem train_throughput_counterexample:
  "snd (snd (train (a_trainer (a_config False ''cpu'' 3 (- 1) 1)
                      [a_batch 1, a_batch 1, a_batch 1, a_batch 1]))) = Inr True
   \<and> Print (PrintTotal 2 2)
       \<in> set (fst (train (a_trainer (a_config False ''cpu'' 3 (- 1) 1)
                            [a_batch 1, a_batch 1, a_batch 1, a_batch 1])))
   \<and> last (fst (train (a_trainer (a_config False ''cpu'' 3 (- 1) 1)
                         [a_batch 1, a_batch 1, a_batch 1, a_batch 1])))
       = Print (PrintThroughput 1)
   \<and> last (fst (train (a_trainer (a_config False ''cpu'' 3 (- 1) 1)
                         [a_batch 1, a_batch 1, a_batch 1, a_batch 1])))
       \<noteq> Print (PrintThroughput (1 * (3 - (- 1) - 1) / 2))
   \<and> snd (snd (train (a_trainer (a_config False ''cpu'' 3 0 0)
                         [a_batch 1, a_batch 1, a_batch 1, a_batch 1]))) = Inl ZeroDivisionError
   \<and> snd (snd (train (a_trainer (a_config False ''cpu'' 3 0 1)
                         [a_batch 0, a_batch 0, a_batch 0, a_batch 0]))) = Inl ZeroDivisionError"
  by (simp add: train_eval)

section \<open>The best evaluation score\<close>

lemma is_best_eval_score_best:
  "best_eval_score (fst (is_best_eval_score t s)) =
     (if eval_score_higher_is_better t then max (best_eval_score t) s
      else min (best_eval_score t) s)"
  by (auto simp: is_best_eval_score_def Let_def max_def min_def)

lemma is_best_eval_score_frame:
  "eval_score_higher_is_better (fst (is_best_eval_score t s)) = eval_score_higher_is_better t"
  by (simp add: is_best_eval_score_def Let_def)

lemma eval_scores_higher:
  "eval_score_higher_is_better t \<Longrightarrow> best_eval_score t \<le> best_eval_score (eval_scores t ss)"
proof (induction ss arbitrary: t)
  case Nil
  then show ?case by simp
next
  case (Cons s ss)
  let ?t = "fst (is_best_eval_score t s)"
  have "best_eval_score t \<le> best_eval_score ?t"
    using Cons.prems by (simp add: is_best_eval_score_best)
  moreover have "best_eval_score ?t \<le> best_eval_score (eval_scores ?t ss)"
    using Cons.prems by (intro Cons.IH) (simp add: is_best_eval_score_frame)
  ultimately show ?case by simp
qed

lemma eval_scores_lower:
  "\<not> eval_score_higher_is_better t \<Longrightarrow> best_eval_score (eval_scores t ss) \<le> best_eval_score t"
proof (induction ss arbitrary: t)
  case Nil
  then show ?case by simp
next
  case (Cons s ss)
  let ?t = "fst (is_best_eval_score t s)"
  have "best_eval_score ?t \<le> best_eval_score t"
    using Cons.prems by (simp add: is_best_eval_score_best)
  moreover have "best_eval_score (eval_scores ?t ss) \<le> best_eval_score ?t"
    using Cons.prems by (intro Cons.IH) (simp add: is_best_eval_score_frame)
  ultimately show ?case by simp
qed

text \<open>
  C10. \<open>best_eval_score\<close> is initialised to negative infinity when higher scores are
  better and to positive infinity otherwise, and that is its value in a trainer built
  without \<open>resume\<close>. A call \<open>_is_best_eval_score(s)\<close> leaves the better of the previous
  value and \<open>s\<close> (the maximum when higher is better, the minimum otherwise) and returns
  \<open>True\<close> exactly when \<open>s\<close> is strictly better than the previous value. Over any sequence
  of calls the value never gets worse.
\<close>

theorem best_eval_score_never_worse:
  "initial_best_eval_score True = NegInf \<and> initial_best_eval_score False = PosInf
   \<and> (\<forall>t'. UNet3DTrainer_init env m opt dev loaders dir me mi hib fmt VNone pre cfg = Inr t'
         \<longrightarrow> best_eval_score t' = initial_best_eval_score hib)
   \<and> best_eval_score (fst (is_best_eval_score t s)) =
       (if eval_score_higher_is_better t then max (best_eval_score t) s
        else min (best_eval_score t) s)
   \<and> snd (is_best_eval_score t s) =
       (if eval_score_higher_is_better t then best_eval_score t < s else s < best_eval_score t)
   \<and> (if eval_score_higher_is_better t
      then best_eval_score t \<le> best_eval_score (eval_scores t ss)
      else best_eval_score (eval_scores t ss) \<le> best_eval_score t)"
proof -
  have a: "initial_best_eval_score True = NegInf \<and> initial_best_eval_score False = PosInf"
    by (simp add: initial_best_eval_score_def)
  have b: "\<forall>t'. UNet3DTrainer_init env m opt dev loaders dir me mi hib fmt VNone pre cfg = Inr t'
         \<longrightarrow> best_eval_score t' = initial_best_eval_score hib"
    by (auto simp: UNet3DTrainer_init_def Let_def
        split: pyval.splits option.splits sum.splits if_splits)
  have c: "snd (is_best_eval_score t s) =
       (if eval_score_higher_is_better t then best_eval_score t < s else s < best_eval_score t)"
    by (simp add: is_best_eval_score_def Let_def)
  show ?thesis
    using a b c is_best_eval_score_best [of t s] eval_scores_higher [of t ss]
      eval_scores_lower [of t ss]
    by simp
qed

text \<open>
  The theorem on a trainer whose best score is negative infinity: the score 1 is new
  best, after the scores 3 and 2 the best is 3, and a trainer built for lower-is-better
  starts at positive infinity.
\<close>

theorem best_eval_score_never_worse_witness:
  "best_eval_score (fst (is_best_eval_score (a_trainer () []) (Fin 1))) = Fin 1
   \<and> snd (is_best_eval_score (a_trainer () []) (Fin 1))
   \<and> best_eval_score (eval_scores (a_trainer () []) [Fin 3, Fin 2]) = Fin 3
   \<and> NegInf \<le> best_eval_score (eval_scores (a_trainer () []) [Fin 3, Fin 2])
   \<and> (case UNet3DTrainer_init (a_trainer_env converts) a_model \<lparr> opt_state = [] \<rparr> VNone []
             (VStr ''checkpoints'') (5 :: int) 1000 False True VNone VNone () of
         Inl e \<Rightarrow> False
       | Inr t' \<Rightarrow> best_eval_score t' = PosInf)"
proof -
  let ?t = "a_trainer () []"
  have hib: "eval_score_higher_is_better ?t" "best_eval_score ?t = NegInf"
    by (simp_all add: a_trainer_def)
  have init: "UNet3DTrainer_init (a_trainer_env converts) a_model \<lparr> opt_state = [] \<rparr> VNone []
             (VStr ''checkpoints'') (5 :: int) 1000 False True VNone VNone () =
      Inr \<lparr> model = a_model, optimizer = \<lparr> opt_state = [] \<rparr>, device = VNone,
            loaders_train = [], checkpoint_dir = ''checkpoints'', max_num_epochs = 5,
            max_num_iterations = 1000, eval_score_higher_is_better = False, config = (),
            best_eval_score = initial_best_eval_score False, num_iterations = 0,
            num_epochs = 0 \<rparr>"
    by (simp add: UNet3DTrainer_init_def Let_def)
  have steps: "eval_scores ?t [Fin 3, Fin 2] = ?t\<lparr>best_eval_score := Fin 3\<rparr>"
    by (simp add: is_best_eval_score_def a_trainer_def Let_def less_score_def)
  show ?thesis
    using best_eval_score_never_worse
      [of "a_trainer_env converts" a_model "\<lparr> opt_state = [] \<rparr>" VNone "[]"
          "VStr ''checkpoints''" "5 :: int" 1000 False True VNone "()" ?t "Fin 1"
          "[Fin 3, Fin 2]"]
      hib init steps
    by (simp add: max_def less_score_def)
qed

section \<open>Synchronization before timing\<close>






lemma sync_run_prints:
  "sync_run p [Print a, Print b, Print c] = Some p"
  by simp









lemma sync_before_timing_on_cpu:
  "\<not> sync_before_timing
       (fst (train (a_trainer (a_config False ''cpu'' 1 0 1) [a_batch 1, a_batch 1])))"
  by (simp add: train_eval sync_before_timing_def)

section \<open>One epoch per call of fit\<close>

lemma train_result:
  assumes "train t = (evs, t', r)"
  shows "num_epochs t' = num_epochs t \<and> max_num_epochs t' = max_num_epochs t \<and> (\<forall>b. r = Inr b \<longrightarrow> b)"
  using assms
  by (auto simp: train_def Let_def split: prod.splits option.splits sum.splits if_splits)

text \<open>
  C9. \<open>train\<close> returns \<open>True\<close> whenever it returns. So for a trainer with
  \<open>num_epochs < max_num_epochs\<close>, however large the maximum, \<open>fit\<close> calls \<open>train\<close> exactly
  once: when that call returns, \<open>fit\<close> returns with \<open>num_epochs\<close> unchanged; when it
  raises, the exception leaves \<open>fit\<close>, after that one call and with \<open>num_epochs\<close> unchanged
  as well.
\<close>

theorem fit_trains_once:
  "(\<forall>evs t' r. train t = (evs, t', Inr r) \<longrightarrow> r)
   \<and> (num_epochs t < max_num_epochs t \<longrightarrow>
        (case train t of
           (evs, t', Inr r) \<Rightarrow> fit t = (1, t', None) \<and> num_epochs t' = num_epochs t
         | (evs, t', Inl e) \<Rightarrow> fit t = (1, t', Some e) \<and> num_epochs t' = num_epochs t))"
proof -
  obtain evs t' r where tr: "train t = (evs, t', r)" by (cases "train t") auto
  note res = train_result [OF tr]
  have one: "num_epochs t < max_num_epochs t \<Longrightarrow>
        \<exists>k. nat (max_num_epochs t - num_epochs t) = Suc k"
    by (cases "nat (max_num_epochs t - num_epochs t)") auto
  show ?thesis
  proof (cases r)
    case (Inl e)
    then show ?thesis using tr res one by (auto simp: fit_def)
  next
    case (Inr b)
    then have "b" using res by simp
    then show ?thesis using tr res one Inr by (auto simp: fit_def)
  qed
qed

text \<open>
  The theorem on a trainer at epoch 0 of 5: over four batches \<open>fit\<close> returns after one
  call of \<open>train\<close>, still at epoch 0; over a single batch with the default 200 iterations
  and 20 warm-up iterations nothing is counted, the average divides by zero, and \<open>fit\<close>
  ends with that exception after its one call.
\<close>

theorem fit_trains_once_witness:
  "fst (fit (a_trainer (a_config False ''cpu'' 3 0 1) [a_batch 1, a_batch 1, a_batch 1, a_batch 1])) = 1
   \<and> snd (snd (fit (a_trainer (a_config False ''cpu'' 3 0 1)
                      [a_batch 1, a_batch 1, a_batch 1, a_batch 1]))) = None
   \<and> num_epochs (fst (snd (fit (a_trainer (a_config False ''cpu'' 3 0 1)
                                  [a_batch 1, a_batch 1, a_batch 1, a_batch 1])))) = 0
   \<and> fst (fit (a_trainer (a_config False ''cpu'' 200 20 1) [a_batch 1])) = 1
   \<and> snd (snd (fit (a_trainer (a_config False ''cpu'' 200 20 1) [a_batch 1])))
       = Some ZeroDivisionError"
proof -
  let ?t = "a_trainer (a_config False ''cpu'' 3 0 1) [a_batch 1, a_batch 1, a_batch 1, a_batch 1]"
  let ?u = "a_trainer (a_config False ''cpu'' 200 20 1) [a_batch 1]"
  have lt: "num_epochs ?t < max_num_epochs ?t" "num_epochs ?u < max_num_epochs ?u"
    by (simp_all add: a_trainer_def)
  have ne: "num_epochs ?t = 0" by (simp add: a_trainer_def)
  have r1: "snd (snd (train ?t)) = Inr True" by (simp add: train_eval)
  have r2: "snd (snd (train ?u)) = Inl ZeroDivisionError" by (simp add: train_eval)
  obtain e1 t1 where tr1: "train ?t = (e1, t1, Inr True)"
    using r1 by (cases "train ?t") auto
  obtain e2 t2 where tr2: "train ?u = (e2, t2, Inl ZeroDivisionError)"
    using r2 by (cases "train ?u") auto
  show ?thesis
    using fit_trains_once [of ?t] fit_trains_once [of ?u] lt ne tr1 tr2
    by simp
qed

section \<open>The three paths of the training loop\<close>

text \<open>
  The generic-profiled and the unprofiled path run the same loop body: on a device other
  than \<open>xpu\<close>, a run with \<open>profile\<close> set and the run of the same trainer without it make
  the same calls in the same order once the profiling calls are left out, leave the same
  loop variables and end the same way.
\<close>

lemma iteration_profiled_unprofiled:
  assumes "cfg_device_str cfg \<noteq> ''xpu''"
    and "iteration_profiled cfg L dt b s = (ev, s', oc)"
  shows "iteration_unprofiled (cfg\<lparr>cfg_profile := False\<rparr>) L dt b s = (without_profiling ev, s', oc)"
  using assms
  by (auto simp: iteration_profiled_def iteration_unprofiled_def without_profiling_def Let_def
      split: sum.splits option.splits py_exn.splits if_splits)

lemma train_loop_profiled_unprofiled:
  assumes dev: "cfg_device_str cfg \<noteq> ''xpu''"
  shows "train_loop (iteration_profiled cfg L dt) bs s = (evs, s', r) \<Longrightarrow>
         train_loop (iteration_unprofiled (cfg\<lparr>cfg_profile := False\<rparr>) L dt) bs s
           = (without_profiling evs, s', r)"
proof (induction bs arbitrary: s evs s' r)
  case Nil
  then show ?case by (simp add: without_profiling_def)
next
  case (Cons b bs)
  obtain ev s1 oc where step: "iteration_profiled cfg L dt b s = (ev, s1, oc)"
    by (cases "iteration_profiled cfg L dt b s") auto
  note step' = iteration_profiled_unprofiled [OF dev step]
  show ?case
  proof (cases oc)
    case Continue
    obtain evs1 s2 r1 where rest: "train_loop (iteration_profiled cfg L dt) bs s1 = (evs1, s2, r1)"
      by (cases "train_loop (iteration_profiled cfg L dt) bs s1") auto
    have evs: "evs = ev @ evs1" "s2 = s'" "r1 = r"
      using Cons.prems step Continue rest by simp_all
    from Cons.IH [OF rest] step' Continue evs
    show ?thesis by (simp add: without_profiling_def)
  next
    case Break
    then show ?thesis using Cons.prems step step' by simp
  next
    case (Raise e)
    then show ?thesis using Cons.prems step step' by simp
  qed
qed

text \<open>
  With \<open>profile\<close> set on a device other than \<open>xpu\<close>, whatever \<open>train\<close> does, it does
  without \<open>profile\<close> as well, less the profiling calls: the same calls in order, the same
  trainer afterwards, the same value returned or exception raised.
\<close>

lemma train_profiled_unprofiled:
  assumes prof: "cfg_profile (config t)" and dev: "cfg_device_str (config t) \<noteq> ''xpu''"
    and run: "train t = (evs, t', r)"
  shows "train (t\<lparr>config := (config t)\<lparr>cfg_profile := False\<rparr>\<rparr>)
         = (without_profiling evs, t'\<lparr>config := (config t)\<lparr>cfg_profile := False\<rparr>\<rparr>, r)"
proof -
  let ?cfg = "config t"
  let ?L = "min (int (length (loaders_train t))) (cfg_num_iter ?cfg) - 1"
  let ?dt = "datatype_of (cfg_precision ?cfg)"
  let ?s0 = "\<lparr> ls_num_iterations = num_iterations t, ls_total_time = 0, ls_total_count = 0 \<rparr>"
  obtain evs1 s r1 where loop:
    "train_loop (iteration_profiled ?cfg ?L ?dt) (loaders_train t) ?s0 = (evs1, s, r1)"
    by (cases "train_loop (iteration_profiled ?cfg ?L ?dt) (loaders_train t) ?s0") auto
  note loop' = train_loop_profiled_unprofiled [OF dev loop]
  show ?thesis
    using prof dev run loop loop'
    by (auto simp: train_def Let_def without_profiling_def split: option.splits sum.splits)
qed

text \<open>On \<open>cuda\<close> over two batches: the unprofiled run is the profiled run without its profiler steps.\<close>

theorem train_profiled_unprofiled_witness:
  "fst (train (a_trainer (a_config False ''cuda'' 1 0 1) [a_batch 1, a_batch 1]))
     = without_profiling (fst (train (a_trainer (a_config True ''cuda'' 1 0 1) [a_batch 1, a_batch 1])))
   \<and> snd (snd (train (a_trainer (a_config False ''cuda'' 1 0 1) [a_batch 1, a_batch 1])))
     = snd (snd (train (a_trainer (a_config True ''cuda'' 1 0 1) [a_batch 1, a_batch 1])))
   \<and> ProfilerStep \<in> set (fst (train (a_trainer (a_config True ''cuda'' 1 0 1) [a_batch 1, a_batch 1])))"
proof -
  define t where "t = a_trainer (a_config True ''cuda'' 1 0 1) [a_batch 1, a_batch 1]"
  have u: "t\<lparr>config := (config t)\<lparr>cfg_profile := False\<rparr>\<rparr>
           = a_trainer (a_config False ''cuda'' 1 0 1) [a_batch 1, a_batch 1]"
    by (simp add: t_def a_trainer_def a_config_def)
  have p: "cfg_profile (config t)" and d: "cfg_device_str (config t) \<noteq> ''xpu''"
    by (simp_all add: t_def a_trainer_def a_config_def)
  obtain evs t' r where run: "train t = (evs, t', r)" by (cases "train t") auto
  have ps: "ProfilerStep \<in> set (fst (train (a_trainer (a_config True ''cuda'' 1 0 1) [a_batch 1, a_batch 1])))"
    by (simp add: train_eval)
  from train_profiled_unprofiled [OF p d run]
  have "train (a_trainer (a_config False ''cuda'' 1 0 1) [a_batch 1, a_batch 1])
        = (without_profiling evs, t'\<lparr>config := (config t)\<lparr>cfg_profile := False\<rparr>\<rparr>, r)"
    unfolding u .
  then show ?thesis using run ps unfolding t_def by simp
qed

text \<open>
  With \<open>profile\<close> set on \<open>xpu\<close>, over a loader whose first batch unpacks, \<open>train\<close> always
  ends with \<open>NameError\<close> for the name \<open>args\<close>.
\<close>

lemma train_xpu_profiled_raises_general:
  assumes "cfg_profile (config t)" and "cfg_device_str (config t) = ''xpu''"
    and "loaders_train t = b # bs" and "batch_len b = 2 \<or> batch_len b = 3"
  shows "snd (snd (train t)) = Inl (NameError ''args'')"
  using assms
  by (auto simp: train_def Let_def iteration_xpu_profiled_def split_training_batch_def)

text \<open>With the default 200 iterations and 20 warm-up iterations, over two batches.\<close>

theorem train_xpu_profiled_raises_general_witness:
  "snd (snd (train (a_trainer (a_config True ''xpu'' 200 20 1) [a_batch 1, a_batch 2])))
     = Inl (NameError ''args'')"
proof -
  define t where "t = a_trainer (a_config True ''xpu'' 200 20 1) [a_batch 1, a_batch 2]"
  have h: "cfg_profile (config t)" "cfg_device_str (config t) = ''xpu''"
    "loaders_train t = a_batch 1 # [a_batch 2]" "batch_len (a_batch 1) = 2 \<or> batch_len (a_batch 1) = 3"
    by (simp_all add: t_def a_trainer_def a_config_def a_batch_def)
  show ?thesis using train_xpu_profiled_raises_general [OF h] unfolding t_def .
qed

text \<open>
  C2 does not hold of the xpu-profiled path. On four batches with \<open>num_iter = 3\<close> the
  unprofiled path on \<open>xpu\<close> runs the epoch and returns \<open>True\<close>; with \<open>profile\<close> set, the
  xpu-profiled path ends its first pass with \<open>NameError\<close> for the name \<open>args\<close>, after the
  optimizer step, the synchronization and the duration of that pass, and \<open>train\<close> neither
  reaches a second pass nor prints the epoch's statistics.
\<close>

theorem train_xpu_profiled_raises:
  "snd (snd (train (a_trainer (a_config True ''xpu'' 3 0 1)
                      [a_batch 1, a_batch 1, a_batch 1, a_batch 1]))) = Inl (NameError ''args'')
   \<and> num_iterations (fst (snd (train (a_trainer (a_config True ''xpu'' 3 0 1)
                      [a_batch 1, a_batch 1, a_batch 1, a_batch 1])))) = 0
   \<and> snd (snd (train (a_trainer (a_config False ''xpu'' 3 0 1)
                      [a_batch 1, a_batch 1, a_batch 1, a_batch 1]))) = Inr True
   \<and> num_iterations (fst (snd (train (a_trainer (a_config False ''xpu'' 3 0 1)
                      [a_batch 1, a_batch 1, a_batch 1, a_batch 1])))) = 3"
  by (simp add: train_eval)

section \<open>The checkpoint record\<close>

text \<open>
  C6. The record \<open>_save_checkpoint\<close> builds has exactly the keys \<open>num_epochs\<close>,
  \<open>num_iterations\<close>, \<open>model_state_dict\<close>, \<open>best_eval_score\<close> and \<open>optimizer_state_dict\<close>:
  the trainer's \<open>num_epochs\<close> plus one, its \<open>num_iterations\<close>, the state dict of the
  inner module when the model is wrapped in \<open>DataParallel\<close> and of the model otherwise
  (in both cases the module's own entries, without the wrapper's prefix), its best score
  and the optimizer's state dict. The method logs the path of \<open>last_checkpoint.pytorch\<close>
  in \<open>checkpoint_dir\<close>; the record is stored there, under the best-score name as well when
  \<open>is_best\<close> holds, and no other file changes.
\<close>

theorem save_checkpoint_record:
  "map fst (checkpoint_state t) =
     [''num_epochs'', ''num_iterations'', ''model_state_dict'', ''best_eval_score'',
      ''optimizer_state_dict'']
   \<and> map_of (checkpoint_state t) ''num_epochs'' = Some (CInt (num_epochs t + 1))
   \<and> map_of (checkpoint_state t) ''num_iterations'' = Some (CInt (num_iterations t))
   \<and> map_of (checkpoint_state t) ''model_state_dict'' =
       Some (CStateDict (if data_parallel (model t) then state_dict (module (model t))
                         else state_dict (model t)))
   \<and> map_of (checkpoint_state t) ''model_state_dict'' = Some (CStateDict (module_state (model t)))
   \<and> map_of (checkpoint_state t) ''best_eval_score'' = Some (CScore (best_eval_score t))
   \<and> map_of (checkpoint_state t) ''optimizer_state_dict'' =
       Some (CStateDict (opt_state (optimizer t)))
   \<and> fst (UNet3DTrainer_save_checkpoint best_name t is_best fs) =
       path_join (checkpoint_dir t) ''last_checkpoint.pytorch''
   \<and> snd (UNet3DTrainer_save_checkpoint best_name t is_best fs)
         (path_join (checkpoint_dir t) ''last_checkpoint.pytorch'') = Some (checkpoint_state t)
   \<and> (is_best \<longrightarrow>
        snd (UNet3DTrainer_save_checkpoint best_name t is_best fs)
          (path_join (checkpoint_dir t) best_name) = Some (checkpoint_state t))
   \<and> (\<forall>p. p \<noteq> path_join (checkpoint_dir t) ''last_checkpoint.pytorch''
          \<and> (is_best \<longrightarrow> p \<noteq> path_join (checkpoint_dir t) best_name)
          \<longrightarrow> snd (UNet3DTrainer_save_checkpoint best_name t is_best fs) p = fs p)"
  by (auto simp: checkpoint_state_def UNet3DTrainer_save_checkpoint_def save_checkpoint_def
      Let_def state_dict_def module_def)

text \<open>
  The theorem on a trainer at epoch 0 with \<open>checkpoint_dir = checkpoints\<close>: the record
  says epoch 1; a wrapped model's record has the inner module's keys, where the wrapper's
  own state dict has them prefixed; the best-score file is written with \<open>is_best\<close> and
  not without.
\<close>

theorem save_checkpoint_record_witness:
  "map_of (checkpoint_state (a_trainer () [])) ''num_epochs'' = Some (CInt 1)
   \<and> map_of (checkpoint_state ((a_trainer () [])\<lparr>model := a_model\<lparr>data_parallel := True\<rparr>\<rparr>))
        ''model_state_dict'' = Some (CStateDict [(''final_conv.weight'', [1, 2])])
   \<and> state_dict (a_model\<lparr>data_parallel := True\<rparr>) = [(''module.final_conv.weight'', [1, 2])]
   \<and> snd (UNet3DTrainer_save_checkpoint ''best_checkpoint.pytorch'' (a_trainer () []) True Map.empty)
        ''checkpoints/last_checkpoint.pytorch'' = Some (checkpoint_state (a_trainer () []))
   \<and> snd (UNet3DTrainer_save_checkpoint ''best_checkpoint.pytorch'' (a_trainer () []) True Map.empty)
        ''checkpoints/best_checkpoint.pytorch'' = Some (checkpoint_state (a_trainer () []))
   \<and> snd (UNet3DTrainer_save_checkpoint ''best_checkpoint.pytorch'' (a_trainer () []) False Map.empty)
        ''checkpoints/best_checkpoint.pytorch'' = None"
  using save_checkpoint_record [of "a_trainer () []" "''best_checkpoint.pytorch''" True Map.empty]
    save_checkpoint_record [of "a_trainer () []" "''best_checkpoint.pytorch''" False Map.empty]
    save_checkpoint_record [of "(a_trainer () [])\<lparr>model := a_model\<lparr>data_parallel := True\<rparr>\<rparr>"
       "''best_checkpoint.pytorch''" False Map.empty]
  by (simp add: a_trainer_def a_model_def path_join_def state_dict_def module_def
      checkpoint_state_def)

section \<open>What load_config returns\<close>

lemma yaml_device_str_returns:
  assumes "m ''device'' = None \<or> m ''device'' = Some VNone \<or> (\<exists>s. m ''device'' = Some (VStr s))"
  shows "\<exists>ys. yaml_device_str env m = Inr ys"
  using assms by (auto simp: yaml_device_str_def)

lemma load_config_after_device:
  assumes "yaml_device_str env (h r) = Inr ys"
    and "torch_device env (device_flag (parse_args path flags)) = Inr dev"
  shows "load_config env path flags h (VRef r) =
     (case set_loaders_batch_size
             (set_item (set_item h r ''device'' (VDevice dev)) r ''device_str''
                (VStr (device_flag (parse_args path flags))))
             r (batch_size (parse_args path flags)) of
        Inl e \<Rightarrow> Inl e
      | Inr h2 \<Rightarrow>
          Inr (set_item (set_item (set_item (set_item (set_item (set_item (set_item (set_item h2
                 r ''precision'' (VStr (precision (parse_args path flags))))
                 r ''channels_last'' (VInt (channels_last (parse_args path flags))))
                 r ''jit'' (VBool (jit (parse_args path flags))))
                 r ''profile'' (VBool (profile (parse_args path flags))))
                 r ''num_iter'' (VInt (num_iter (parse_args path flags))))
                 r ''num_warmup'' (VInt (num_warmup (parse_args path flags))))
                 r ''nv_fuser'' (VBool (nv_fuser (parse_args path flags))))
                 r ''ipex'' (VBool (ipex (parse_args path flags))), r))"
  using assms by (simp add: load_config_def Let_def split: sum.splits)

lemma load_config_device_raises:
  assumes "yaml_device_str env (h r) = Inr ys"
    and "torch_device env (device_flag (parse_args path flags)) = Inl e"
  shows "load_config env path flags h (VRef r) = Inl e"
  using assms by (simp add: load_config_def Let_def)

lemma set_loaders_batch_size_at:
  assumes "h r ''loaders'' = Some (VRef l)"
  shows "set_loaders_batch_size h r n = Inr (set_item h l ''batch_size'' (VInt n))"
  using assms by (simp add: set_loaders_batch_size_def lookup_def)

lemma load_config_returns:
  assumes yd: "yaml_device_str env (h r) = Inr ys"
    and ld: "h r ''loaders'' = Some (VRef l)"
    and td: "torch_device env (device_flag (parse_args path flags)) = Inr dev"
  shows "load_config env path flags h (VRef r) =
     Inr (set_item (set_item (set_item (set_item (set_item (set_item (set_item (set_item
           (set_item
              (set_item (set_item h r ''device'' (VDevice dev)) r ''device_str''
                 (VStr (device_flag (parse_args path flags))))
              l ''batch_size'' (VInt (batch_size (parse_args path flags))))
           r ''precision'' (VStr (precision (parse_args path flags))))
           r ''channels_last'' (VInt (channels_last (parse_args path flags))))
           r ''jit'' (VBool (jit (parse_args path flags))))
           r ''profile'' (VBool (profile (parse_args path flags))))
           r ''num_iter'' (VInt (num_iter (parse_args path flags))))
           r ''num_warmup'' (VInt (num_warmup (parse_args path flags))))
           r ''nv_fuser'' (VBool (nv_fuser (parse_args path flags))))
           r ''ipex'' (VBool (ipex (parse_args path flags))), r)"
proof -
  let ?h1 = "set_item (set_item h r ''device'' (VDevice dev)) r ''device_str''
          (VStr (device_flag (parse_args path flags)))"
  have "?h1 r ''loaders'' = Some (VRef l)"
    using ld by (simp add: set_item_def)
  then have s: "set_loaders_batch_size ?h1 r (batch_size (parse_args path flags))
      = Inr (set_item ?h1 l ''batch_size'' (VInt (batch_size (parse_args path flags))))"
    by (rule set_loaders_batch_size_at)
  show ?thesis
    unfolding load_config_after_device [of env h r ys path flags dev, OF yd td] s by simp
qed

text \<open>
  The configuration \<open>load_config\<close> returns has the entries \<open>train\<close> reads, with the
  values of the flags.
\<close>

lemma load_config_run_config:
  assumes ld: "h r ''loaders'' = Some (VRef l)"
    and de: "h r ''device'' = None \<or> h r ''device'' = Some VNone
             \<or> (\<exists>s. h r ''device'' = Some (VStr s))"
    and td: "torch_device env (device_flag (parse_args path flags)) = Inr dev"
  shows "\<exists>h'. load_config env path flags h (VRef r) = Inr (h', r)
     \<and> run_config_of h' r =
         Some \<lparr> cfg_num_iter = num_iter (parse_args path flags),
                cfg_num_warmup = num_warmup (parse_args path flags),
                cfg_precision = precision (parse_args path flags),
                cfg_profile = profile (parse_args path flags),
                cfg_device_str = device_flag (parse_args path flags),
                cfg_channels_last = channels_last (parse_args path flags),
                cfg_batch_size = batch_size (parse_args path flags) \<rparr>"
proof -
  from de yaml_device_str_returns [of "h r" env] obtain ys where
    yd: "yaml_device_str env (h r) = Inr ys" by blast
  note res = load_config_returns [of env h r ys l path flags dev, OF yd ld td]
  show ?thesis
    unfolding res using ld
    by (cases "l = r") (simp_all add: set_item_def run_config_of_def)
qed

text \<open>
  C3, as amended. Take a YAML file that parses to a mapping whose \<open>loaders\<close> entry is
  itself a mapping and whose \<open>device\<close> entry is absent, null or a string, and a
  \<open>--device\<close> flag that \<open>torch.device\<close> accepts. Then \<open>load_config\<close> returns that mapping,
  the object that was parsed. Its entries \<open>precision\<close>, \<open>channels_last\<close>, \<open>jit\<close>,
  \<open>profile\<close>, \<open>num_iter\<close>, \<open>num_warmup\<close>, \<open>nv_fuser\<close> and \<open>ipex\<close> are the values of their
  flags, \<open>device_str\<close> is the \<open>--device\<close> flag and \<open>device\<close> the device it names, and
  every other key is bound to the object it was bound to after parsing. The mapping
  under \<open>loaders\<close> is changed where it is: its \<open>batch_size\<close> is the value of the flag
  and its other entries are as parsed, so every other key or entry that holds this same
  mapping (an alias of a YAML anchor) shows the new \<open>batch_size\<close> too. No other mapping
  of the file changes. With no flag given the values are 1, \<open>float32\<close>, 1, false, false,
  200, 20, false, false, and \<open>cpu\<close> for the device.
\<close>

theorem load_config_merges:
  assumes ld: "h r ''loaders'' = Some (VRef l)"
    and de: "h r ''device'' = None \<or> h r ''device'' = Some VNone
             \<or> (\<exists>s. h r ''device'' = Some (VStr s))"
    and td: "torch_device env (device_flag (parse_args path flags)) = Inr dev"
  shows "\<exists>h'. load_config env path flags h (VRef r) = Inr (h', r)
     \<and> h' r ''loaders'' = Some (VRef l)
     \<and> h' l ''batch_size'' = Some (VInt (batch_size (parse_args path flags)))
     \<and> h' r ''precision'' = Some (VStr (precision (parse_args path flags)))
     \<and> h' r ''channels_last'' = Some (VInt (channels_last (parse_args path flags)))
     \<and> h' r ''jit'' = Some (VBool (jit (parse_args path flags)))
     \<and> h' r ''profile'' = Some (VBool (profile (parse_args path flags)))
     \<and> h' r ''num_iter'' = Some (VInt (num_iter (parse_args path flags)))
     \<and> h' r ''num_warmup'' = Some (VInt (num_warmup (parse_args path flags)))
     \<and> h' r ''nv_fuser'' = Some (VBool (nv_fuser (parse_args path flags)))
     \<and> h' r ''ipex'' = Some (VBool (ipex (parse_args path flags)))
     \<and> h' r ''device'' = Some (VDevice dev)
     \<and> h' r ''device_str'' = Some (VStr (device_flag (parse_args path flags)))
     \<and> (\<forall>k. k \<notin> {''precision'', ''channels_last'', ''jit'', ''profile'', ''num_iter'',
                   ''num_warmup'', ''nv_fuser'', ''ipex'', ''device'', ''device_str''}
              \<and> (l = r \<longrightarrow> k \<noteq> ''batch_size'')
            \<longrightarrow> h' r k = h r k)
     \<and> (l \<noteq> r \<longrightarrow> (\<forall>k. k \<noteq> ''batch_size'' \<longrightarrow> h' l k = h l k))
     \<and> (\<forall>p. p \<noteq> r \<and> p \<noteq> l \<longrightarrow> h' p = h p)
     \<and> parse_args path [] =
         \<lparr> config_path = path, batch_size = 1, precision = ''float32'', channels_last = 1,
           jit = False, profile = False, num_iter = 200, num_warmup = 20,
           device_flag = ''cpu'', nv_fuser = False, ipex = False \<rparr>"
proof -
  from de yaml_device_str_returns [of "h r" env] obtain ys where
    yd: "yaml_device_str env (h r) = Inr ys" by blast
  note res = load_config_returns [of env h r ys l path flags dev, OF yd ld td]
  show ?thesis
    unfolding res using ld
    by (cases "l = r") (simp_all add: set_item_def parse_args_def default_args_def)
qed

text \<open>
  The theorem on a file with a \<open>loaders\<close> section, a \<open>model\<close> section and
  \<open>device: cuda:0\<close>, under \<open>--batch_size 4 --device xpu\<close>.
\<close>

theorem load_config_merges_witness:
  "(case load_config a_torch_env ''train_config.yaml'' [Flag_batch_size 4, Flag_device ''xpu'']
          a_yaml_heap (VRef 0) of
      Inl e \<Rightarrow> False
    | Inr (h', r) \<Rightarrow>
        r = 0
        \<and> h' 0 ''loaders'' = Some (VRef 1)
        \<and> h' 1 ''batch_size'' = Some (VInt 4)
        \<and> h' 1 ''num_workers'' = Some (VInt 8)
        \<and> h' 0 ''device_str'' = Some (VStr ''xpu'')
        \<and> h' 0 ''device'' = Some (VDevice \<lparr> dev_type = ''xpu'', dev_index = None \<rparr>)
        \<and> h' 0 ''num_iter'' = Some (VInt 200)
        \<and> h' 0 ''precision'' = Some (VStr ''float32'')
        \<and> h' 0 ''model'' = Some (VRef 2)
        \<and> h' 2 = Map.empty)"
proof -
  let ?flags = "[Flag_batch_size 4, Flag_device ''xpu'']"
  have a: "parse_args ''train_config.yaml'' ?flags =
      \<lparr> config_path = ''train_config.yaml'', batch_size = 4, precision = ''float32'',
        channels_last = 1, jit = False, profile = False, num_iter = 200, num_warmup = 20,
        device_flag = ''xpu'', nv_fuser = False, ipex = False \<rparr>"
    by (simp add: parse_args_def default_args_def)
  have ld: "a_yaml_heap 0 ''loaders'' = Some (VRef 1)" by (simp add: a_yaml_heap_def)
  have de: "a_yaml_heap 0 ''device'' = None \<or> a_yaml_heap 0 ''device'' = Some VNone
            \<or> (\<exists>s. a_yaml_heap 0 ''device'' = Some (VStr s))" by (simp add: a_yaml_heap_def)
  have td: "torch_device a_torch_env (device_flag (parse_args ''train_config.yaml'' ?flags))
            = Inr \<lparr> dev_type = ''xpu'', dev_index = None \<rparr>"
    unfolding a by (simp add: a_torch_env_def)
  have before: "a_yaml_heap 0 ''model'' = Some (VRef 2)"
    "a_yaml_heap 1 ''num_workers'' = Some (VInt 8)" "a_yaml_heap 2 = Map.empty"
    by (simp_all add: a_yaml_heap_def empty_heap_def)
  have mo: "''model'' \<notin> {''precision'', ''channels_last'', ''jit'', ''profile'', ''num_iter'',
                   ''num_warmup'', ''nv_fuser'', ''ipex'', ''device'', ''device_str''}
            \<and> ((1::nat) = 0 \<longrightarrow> ''model'' \<noteq> ''batch_size'')"
    by simp
  note th = load_config_merges [of a_yaml_heap 0 1 a_torch_env
      "''train_config.yaml''" ?flags, OF ld de td]
  then obtain h' where
    c: "load_config a_torch_env ''train_config.yaml'' ?flags a_yaml_heap (VRef 0) = Inr (h', 0)"
    and l: "h' 0 ''loaders'' = Some (VRef 1)"
    and bs: "h' 1 ''batch_size'' = Some (VInt (batch_size (parse_args ''train_config.yaml'' ?flags)))"
    and ds: "h' 0 ''device_str'' = Some (VStr (device_flag (parse_args ''train_config.yaml'' ?flags)))"
    and dv: "h' 0 ''device'' = Some (VDevice \<lparr> dev_type = ''xpu'', dev_index = None \<rparr>)"
    and ni: "h' 0 ''num_iter'' = Some (VInt (num_iter (parse_args ''train_config.yaml'' ?flags)))"
    and pr: "h' 0 ''precision'' = Some (VStr (precision (parse_args ''train_config.yaml'' ?flags)))"
    and rest: "\<forall>k. k \<notin> {''precision'', ''channels_last'', ''jit'', ''profile'', ''num_iter'',
                   ''num_warmup'', ''nv_fuser'', ''ipex'', ''device'', ''device_str''}
              \<and> ((1::nat) = 0 \<longrightarrow> k \<noteq> ''batch_size'')
            \<longrightarrow> h' 0 k = a_yaml_heap 0 k"
    and inner: "(1::nat) \<noteq> 0 \<longrightarrow> (\<forall>k. k \<noteq> ''batch_size'' \<longrightarrow> h' 1 k = a_yaml_heap 1 k)"
    and others: "\<forall>p. p \<noteq> 0 \<and> p \<noteq> 1 \<longrightarrow> h' p = a_yaml_heap p"
    by (elim exE conjE) (rule that, assumption+)
  have md: "h' 0 ''model'' = a_yaml_heap 0 ''model''"
    using mo by (rule rest [rule_format])
  have nw: "h' 1 ''num_workers'' = a_yaml_heap 1 ''num_workers''"
    using inner by simp
  have two: "h' 2 = a_yaml_heap 2"
    using others by simp
  from c l bs ds dv ni pr md nw two before
  show ?thesis unfolding a by simp
qed

text \<open>
  C3 as stated fails. On \<open>loaders: 4\<close> the item assignment raises \<open>TypeError\<close>; on
  \<open>device: 0\<close> the call of \<open>startswith\<close> raises \<open>AttributeError\<close>; under \<open>--device gpu\<close>
  \<open>torch.device\<close> raises \<open>RuntimeError\<close>. Each file parses to a mapping with a \<open>loaders\<close>
  key, and \<open>load_config\<close> returns nothing. And on \<open>loaders: &l {num_workers: 8}\<close> with
  \<open>val_loaders: *l\<close>, under \<open>--batch_size 4\<close>, \<open>load_config\<close> returns a configuration in
  which the mapping under the other key \<open>val_loaders\<close> has a \<open>batch_size\<close> of 4, which it
  did not have as parsed.
\<close>

theorem load_config_merges_counterexample:
  "load_config a_torch_env ''train_config.yaml'' []
       (empty_heap(0 := [''loaders'' \<mapsto> VInt 4])) (VRef 0)
     = Inl (TypeError ''object does not support item assignment'')
   \<and> load_config a_torch_env ''train_config.yaml'' []
       (empty_heap(0 := [''loaders'' \<mapsto> VRef 1, ''device'' \<mapsto> VInt 0])) (VRef 0)
     = Inl (AttributeError ''startswith'')
   \<and> load_config a_torch_env ''train_config.yaml'' [Flag_device ''gpu'']
       (empty_heap(0 := [''loaders'' \<mapsto> VRef 1])) (VRef 0)
     = Inl (RuntimeError ''Expected one of cpu, cuda, xpu device type'')
   \<and> an_alias_heap 0 ''val_loaders'' = Some (VRef 1)
   \<and> an_alias_heap 1 ''batch_size'' = None
   \<and> (case load_config a_torch_env ''train_config.yaml'' [Flag_batch_size 4]
             an_alias_heap (VRef 0) of
         Inl e \<Rightarrow> False
       | Inr (h', r) \<Rightarrow>
           r = 0 \<and> h' 0 ''val_loaders'' = Some (VRef 1)
           \<and> h' 1 ''batch_size'' = Some (VInt 4))"
  by (simp add: load_config_def yaml_device_str_def set_loaders_batch_size_def lookup_def
      parse_args_def default_args_def a_torch_env_def Let_def set_item_def empty_heap_def
      an_alias_heap_def)

section \<open>The device named by the YAML file\<close>

lemma set_loaders_batch_size_keeps:
  assumes "set_loaders_batch_size h r n = Inr h'" and "k \<noteq> ''batch_size''"
  shows "h' p k = h p k"
  using assms
  by (auto simp: set_loaders_batch_size_def lookup_def set_item_def
      split: option.splits pyval.splits)

text \<open>
  C8, as amended. Take two runs of \<open>load_config\<close> with the same command line, on YAML
  mappings that agree on every key but \<open>device\<close>, where each \<open>device\<close> entry is absent,
  null or a string, under any availability of CUDA. Then the two runs end the same way:
  with the same configuration, or with the same exception. In a returned configuration
  \<open>device_str\<close> is the \<open>--device\<close> flag, \<open>cpu\<close> by default, and \<open>device\<close> is the device
  that flag names.
\<close>

theorem load_config_ignores_yaml_device:
  assumes others: "\<forall>p. p \<noteq> r \<longrightarrow> h1 p = h2 p"
    and same: "\<forall>k. k \<noteq> ''device'' \<longrightarrow> h1 r k = h2 r k"
    and d1: "h1 r ''device'' = None \<or> h1 r ''device'' = Some VNone
             \<or> (\<exists>s. h1 r ''device'' = Some (VStr s))"
    and d2: "h2 r ''device'' = None \<or> h2 r ''device'' = Some VNone
             \<or> (\<exists>s. h2 r ''device'' = Some (VStr s))"
    and td: "torch_device env1 = torch_device env2"
  shows "load_config env1 path flags h1 (VRef r) = load_config env2 path flags h2 (VRef r)
     \<and> (\<forall>h' c. load_config env1 path flags h1 (VRef r) = Inr (h', c) \<longrightarrow>
           c = r
           \<and> h' c ''device_str'' = Some (VStr (device_flag (parse_args path flags)))
           \<and> (\<exists>dev. torch_device env1 (device_flag (parse_args path flags)) = Inr dev
                  \<and> h' c ''device'' = Some (VDevice dev)))
     \<and> device_flag (parse_args path []) = ''cpu''"
proof -
  let ?a = "parse_args path flags"
  from d1 yaml_device_str_returns [of "h1 r" env1] obtain ys1 where
    y1: "yaml_device_str env1 (h1 r) = Inr ys1" by blast
  from d2 yaml_device_str_returns [of "h2 r" env2] obtain ys2 where
    y2: "yaml_device_str env2 (h2 r) = Inr ys2" by blast
  have eq: "set_item h1 r ''device'' x = set_item h2 r ''device'' x" for x
  proof (intro ext)
    fix p k
    show "set_item h1 r ''device'' x p k = set_item h2 r ''device'' x p k"
      using others same by (simp add: set_item_def)
  qed
  have dflt: "device_flag (parse_args path []) = ''cpu''"
    by (simp add: parse_args_def default_args_def)
  show ?thesis
  proof (cases "torch_device env1 (device_flag ?a)")
    case (Inl e)
    then have e2: "torch_device env2 (device_flag ?a) = Inl e" using td by simp
    have "load_config env1 path flags h1 (VRef r) = Inl e"
      using y1 Inl by (rule load_config_device_raises)
    moreover have "load_config env2 path flags h2 (VRef r) = Inl e"
      using y2 e2 by (rule load_config_device_raises)
    ultimately show ?thesis using dflt by simp
  next
    case (Inr dev)
    then have e2: "torch_device env2 (device_flag ?a) = Inr dev" using td by simp
    note r1 = load_config_after_device [of env1 h1 r ys1 path flags dev, OF y1 Inr]
    note r2 = load_config_after_device [of env2 h2 r ys2 path flags dev, OF y2 e2]
    have main: "load_config env1 path flags h1 (VRef r) = load_config env2 path flags h2 (VRef r)"
      unfolding r1 r2 eq ..
    have det: "c = r \<and> h' c ''device_str'' = Some (VStr (device_flag ?a))
         \<and> h' c ''device'' = Some (VDevice dev)"
      if c: "load_config env1 path flags h1 (VRef r) = Inr (h', c)" for h' c
    proof (cases "set_loaders_batch_size
             (set_item (set_item h1 r ''device'' (VDevice dev)) r ''device_str''
                (VStr (device_flag ?a)))
             r (batch_size ?a)")
      case (Inl e)
      then show ?thesis using c unfolding r1 by simp
    next
      case (Inr h2')
      have k1: "h2' r ''device'' = Some (VDevice dev)"
        using set_loaders_batch_size_keeps [OF Inr, of "''device''" r]
        by (simp add: set_item_def)
      have k2: "h2' r ''device_str'' = Some (VStr (device_flag ?a))"
        using set_loaders_batch_size_keeps [OF Inr, of "''device_str''" r]
        by (simp add: set_item_def)
      have "c = r \<and> h' = set_item (set_item (set_item (set_item (set_item (set_item (set_item
                 (set_item h2'
                 r ''precision'' (VStr (precision ?a)))
                 r ''channels_last'' (VInt (channels_last ?a)))
                 r ''jit'' (VBool (jit ?a)))
                 r ''profile'' (VBool (profile ?a)))
                 r ''num_iter'' (VInt (num_iter ?a)))
                 r ''num_warmup'' (VInt (num_warmup ?a)))
                 r ''nv_fuser'' (VBool (nv_fuser ?a)))
                 r ''ipex'' (VBool (ipex ?a))"
        using c Inr unfolding r1 by auto
      then show ?thesis using k1 k2 by (simp add: set_item_def)
    qed
    show ?thesis using main det Inr dflt by blast
  qed
qed

text \<open>
  The theorem on a file with \<open>device: cuda:0\<close> where CUDA is missing and the same file
  without the entry where CUDA is there, under \<open>--device xpu\<close>: the configurations are
  equal.
\<close>

theorem load_config_ignores_yaml_device_witness:
  "load_config a_torch_env ''train_config.yaml'' [Flag_device ''xpu'']
     (empty_heap(0 := [''loaders'' \<mapsto> VRef 1, ''device'' \<mapsto> VStr ''cuda:0''])) (VRef 0)
   = load_config (a_torch_env\<lparr>cuda_is_available := True\<rparr>) ''train_config.yaml''
       [Flag_device ''xpu''] (empty_heap(0 := [''loaders'' \<mapsto> VRef 1])) (VRef 0)
   \<and> \<not> isl (load_config a_torch_env ''train_config.yaml'' [Flag_device ''xpu'']
               (empty_heap(0 := [''loaders'' \<mapsto> VRef 1, ''device'' \<mapsto> VStr ''cuda:0'']))
               (VRef 0))"
proof -
  define h1 where "h1 = empty_heap(0 := [''loaders'' \<mapsto> VRef 1, ''device'' \<mapsto> VStr ''cuda:0''])"
  define h2 where "h2 = empty_heap(0 := [''loaders'' \<mapsto> VRef 1])"
  have others: "\<forall>p. p \<noteq> 0 \<longrightarrow> h1 p = h2 p" by (simp add: h1_def h2_def)
  have same: "\<forall>k. k \<noteq> ''device'' \<longrightarrow> h1 0 k = h2 0 k" by (simp add: h1_def h2_def)
  have d1: "h1 0 ''device'' = None \<or> h1 0 ''device'' = Some VNone
            \<or> (\<exists>s. h1 0 ''device'' = Some (VStr s))" by (simp add: h1_def)
  have d2: "h2 0 ''device'' = None \<or> h2 0 ''device'' = Some VNone
            \<or> (\<exists>s. h2 0 ''device'' = Some (VStr s))" by (simp add: h2_def empty_heap_def)
  have td: "torch_device a_torch_env = torch_device (a_torch_env\<lparr>cuda_is_available := True\<rparr>)"
    by simp
  have ret: "\<not> isl (load_config a_torch_env ''train_config.yaml'' [Flag_device ''xpu''] h1 (VRef 0))"
    by (simp add: load_config_def yaml_device_str_def set_loaders_batch_size_def lookup_def
        parse_args_def default_args_def a_torch_env_def Let_def set_item_def h1_def)
  from load_config_ignores_yaml_device [of 0 h1 h2 a_torch_env
      "a_torch_env\<lparr>cuda_is_available := True\<rparr>" "''train_config.yaml''"
      "[Flag_device ''xpu'']", OF others same d1 d2 td]
  have "load_config a_torch_env ''train_config.yaml'' [Flag_device ''xpu''] h1 (VRef 0)
        = load_config (a_torch_env\<lparr>cuda_is_available := True\<rparr>) ''train_config.yaml''
            [Flag_device ''xpu''] h2 (VRef 0)"
    by (rule conjunct1)
  then show ?thesis using ret unfolding h1_def h2_def by (rule conjI)
qed

text \<open>
  C8 as stated fails. The file with \<open>device: 0\<close> and the file without a \<open>device\<close> entry
  differ in that entry only: on the first \<open>load_config\<close> raises \<open>AttributeError\<close>, on the
  second, as on \<open>device: cpu\<close>, it returns a configuration.
\<close>

theorem load_config_ignores_yaml_device_counterexample:
  "load_config a_torch_env ''train_config.yaml'' []
       (empty_heap(0 := [''loaders'' \<mapsto> VRef 1, ''device'' \<mapsto> VInt 0])) (VRef 0)
     = Inl (AttributeError ''startswith'')
   \<and> \<not> isl (load_config a_torch_env ''train_config.yaml'' []
               (empty_heap(0 := [''loaders'' \<mapsto> VRef 1])) (VRef 0))
   \<and> \<not> isl (load_config a_torch_env ''train_config.yaml'' []
               (empty_heap(0 := [''loaders'' \<mapsto> VRef 1, ''device'' \<mapsto> VStr ''cpu'']))
               (VRef 0))"
  by (simp add: load_config_def yaml_device_str_def set_loaders_batch_size_def lookup_def
      parse_args_def default_args_def a_torch_env_def Let_def set_item_def empty_heap_def)

section \<open>Missing configuration keys\<close>











section \<open>A failed conversion to the channels-last format\<close>

lemma model_channels_last_caught:
  "model_to_channels_last tenv m = (Some (RuntimeError msg), m') \<Longrightarrow>
   model_channels_last tenv h cl dev m =
     (if truthy h cl \<and> ne_xpu dev
      then ([PrintLine ''---- use normal format'', PrintFailedNHWC (RuntimeError msg)], Inr m')
      else ([], Inr m))"
  by (simp add: model_channels_last_def)

lemma create_trainer_continues:
  assumes "h c ''model'' = Some mc" and "h c ''device'' = Some dev"
    and "h c ''channels_last'' = Some cl" and "truthy h cl" and "ne_xpu dev"
    and "to_data_parallel tenv dev (get_model tenv h mc) = Inr m1"
    and "model_to_channels_last tenv (m1\<lparr>model_device := Some dev\<rparr>)
         = (Some (RuntimeError msg), m2)"
  shows "create_trainer tenv h c =
     create_trainer_tail tenv h c dev m2
       [PrintLine ''---- use normal format'', PrintFailedNHWC (RuntimeError msg)]"
  using assms by (simp add: create_trainer_def lookup_def model_channels_last_caught)

lemma xpu_optimize_format:
  "xpu_optimize d dev m opt = (out2, Inr (m3, opt')) \<Longrightarrow> param_formats m3 = param_formats m"
  by (auto simp: xpu_optimize_def split: if_splits sum.splits)

lemma construct_trainer_model:
  assumes "construct_trainer tenv h c (VRef tr) m opt dev loaders = (h', Inr t)"
    and "h tr ''resume'' = None \<or> h tr ''resume'' = Some VNone"
    and "h tr ''pre_trained'' = None \<or> h tr ''pre_trained'' = Some VNone"
  shows "model t = m"
proof -
  have r: "fst (pop_item (snd (pop_item h tr ''tensorboard_formatter'')) tr ''resume'') = VNone"
    using assms(2) by (auto simp: pop_item_def del_item_def)
  have p: "fst (pop_item (snd (pop_item (snd (pop_item h tr ''tensorboard_formatter'')) tr
                ''resume'')) tr ''pre_trained'') = VNone"
    using assms(3) by (auto simp: pop_item_def del_item_def)
  have init: "UNet3DTrainer_init tenv m opt dev loaders dir me mi hb hf VNone VNone c = Inr t
      \<Longrightarrow> model t = m" for dir me mi hb hf
    by (auto simp: UNet3DTrainer_init_def Let_def split: pyval.splits if_splits)
  show ?thesis
    using assms(1) r p init
    by (auto simp: construct_trainer_def Let_def split_beta split: if_splits option.splits)
qed

lemma create_trainer_tail_model:
  assumes run: "create_trainer_tail tenv h c dev m2 out1 = (out, h', Inr t)"
    and tc: "h c ''trainer'' = Some (VRef tr)"
    and nr: "h tr ''resume'' = None \<or> h tr ''resume'' = Some VNone"
      "h tr ''pre_trained'' = None \<or> h tr ''pre_trained'' = Some VNone"
  shows "param_formats (model t) = param_formats m2 \<and> take (length out1) out = out1"
proof (cases "h c ''optimizer''")
  case None
  then show ?thesis using run by (simp add: create_trainer_tail_def lookup_def)
next
  case (Some oc)
  obtain out2 r where xo: "xpu_optimize (h c) dev m2 (create_optimizer tenv h oc m2) = (out2, r)"
    by (cases "xpu_optimize (h c) dev m2 (create_optimizer tenv h oc m2)") auto
  show ?thesis
  proof (cases r)
    case (Inl e)
    then show ?thesis using run Some xo by (simp add: create_trainer_tail_def lookup_def)
  next
    case (Inr mo)
    obtain m3 opt where mo: "mo = (m3, opt)" by (cases mo) auto
    obtain h1 r1 where ct0:
      "construct_trainer tenv h c (VRef tr) m3 opt dev (get_train_loaders tenv h c) = (h1, r1)"
      by (cases "construct_trainer tenv h c (VRef tr) m3 opt dev (get_train_loaders tenv h c)") auto
    have "h1 = h' \<and> r1 = Inr t \<and> out = out1 @ out2"
      using run Some xo Inr mo tc ct0 by (simp add: create_trainer_tail_def lookup_def)
    then have ct: "construct_trainer tenv h c (VRef tr) m3 opt dev (get_train_loaders tenv h c)
          = (h', Inr t)"
      and o: "out = out1 @ out2"
      using ct0 by simp_all
    from construct_trainer_model [OF ct nr] xpu_optimize_format [OF xo [unfolded Inr mo]] o
    show ?thesis by simp
  qed
qed

lemma iteration_unprofiled_caught:
  assumes "input_to_channels_last b = Some (RuntimeError msg)"
    and "batch_len b = 2 \<or> batch_len b = 3"
    and "cfg_channels_last rc \<noteq> 0" and "cfg_device_str rc \<noteq> ''xpu''"
  shows "\<exists>evs. iteration_unprofiled rc L dt b s =
       (evs, pass_state rc L (batch_duration b) s, pass_outcome rc s)
     \<and> Print (PrintLine ''----input use normal format'') \<in> set evs
     \<and> Print (PrintFailedNHWC (RuntimeError msg)) \<in> set evs
     \<and> ModelCall Contiguous \<in> set evs \<and> ModelCall ChannelsLast3d \<notin> set evs"
  using assms
  by (auto simp: iteration_unprofiled_def split_training_batch_def Let_def batch_duration_def
      pass_state_def pass_outcome_def counted_def)

lemma iteration_profiled_caught:
  assumes "input_to_channels_last b = Some (RuntimeError msg)"
    and "batch_len b = 2 \<or> batch_len b = 3"
    and "cfg_channels_last rc \<noteq> 0" and "cfg_device_str rc \<noteq> ''xpu''"
  shows "\<exists>evs. iteration_profiled rc L dt b s =
       (evs, pass_state rc L (batch_duration b) s, pass_outcome rc s)
     \<and> Print (PrintLine ''----input use normal format'') \<in> set evs
     \<and> Print (PrintFailedNHWC (RuntimeError msg)) \<in> set evs
     \<and> ModelCall Contiguous \<in> set evs \<and> ModelCall ChannelsLast3d \<notin> set evs"
  using assms
  by (auto simp: iteration_profiled_def split_training_batch_def Let_def batch_duration_def
      pass_state_def pass_outcome_def counted_def)

text \<open>
  C4, as amended. When the model's conversion in \<open>create_trainer\<close> raises \<open>RuntimeError\<close>,
  the conversion block prints the failure and hands on the module as the failed call
  left it: the same object, whose parameters converted before the failure stay
  converted, so it need not be in the default layout. Where the conversion is attempted,
  \<open>create_trainer\<close> goes on with lines 41 to 80 on that model, after the two lines
  printed, and a trainer it builds without a stored checkpoint holds a model with the
  parameter formats the failed call left. When the conversion of a batch's input in
  \<open>train\<close> raises \<open>RuntimeError\<close>, on the generic-profiled and on the unprofiled path, the
  pass prints the failure, calls the model on the input in the default format and runs
  on to its end, as a counted or uncounted pass that continues or breaks.
\<close>

theorem channels_last_failure_is_caught:
  "(model_to_channels_last tenv m = (Some (RuntimeError msg), m') \<longrightarrow>
      model_channels_last tenv h cl dev m =
        (if truthy h cl \<and> ne_xpu dev
         then ([PrintLine ''---- use normal format'', PrintFailedNHWC (RuntimeError msg)],
               Inr m')
         else ([], Inr m)))
   \<and> (h c ''model'' = Some mc \<and> h c ''device'' = Some dev \<and> h c ''channels_last'' = Some cl
       \<and> truthy h cl \<and> ne_xpu dev \<and> to_data_parallel tenv dev (get_model tenv h mc) = Inr m1
       \<and> model_to_channels_last tenv (m1\<lparr>model_device := Some dev\<rparr>)
           = (Some (RuntimeError msg), m2)
      \<longrightarrow> create_trainer tenv h c =
            create_trainer_tail tenv h c dev m2
              [PrintLine ''---- use normal format'', PrintFailedNHWC (RuntimeError msg)]
          \<and> (\<forall>out h' t tr. create_trainer tenv h c = (out, h', Inr t)
                \<and> h c ''trainer'' = Some (VRef tr)
                \<and> (h tr ''resume'' = None \<or> h tr ''resume'' = Some VNone)
                \<and> (h tr ''pre_trained'' = None \<or> h tr ''pre_trained'' = Some VNone)
               \<longrightarrow> param_formats (model t) = param_formats m2
                   \<and> take 2 out = [PrintLine ''---- use normal format'',
                                    PrintFailedNHWC (RuntimeError msg)]))
   \<and> (input_to_channels_last b = Some (RuntimeError msg') \<and> (batch_len b = 2 \<or> batch_len b = 3)
       \<and> cfg_channels_last rc \<noteq> 0 \<and> cfg_device_str rc \<noteq> ''xpu''
      \<longrightarrow> (\<exists>evs. iteration_unprofiled rc L dt b s =
                  (evs, pass_state rc L (batch_duration b) s, pass_outcome rc s)
                \<and> Print (PrintLine ''----input use normal format'') \<in> set evs
                \<and> Print (PrintFailedNHWC (RuntimeError msg')) \<in> set evs
                \<and> ModelCall Contiguous \<in> set evs \<and> ModelCall ChannelsLast3d \<notin> set evs)
        \<and> (\<exists>evs. iteration_profiled rc L dt b s =
                  (evs, pass_state rc L (batch_duration b) s, pass_outcome rc s)
                \<and> Print (PrintLine ''----input use normal format'') \<in> set evs
                \<and> Print (PrintFailedNHWC (RuntimeError msg')) \<in> set evs
                \<and> ModelCall Contiguous \<in> set evs \<and> ModelCall ChannelsLast3d \<notin> set evs))"
proof -
  have site: "model_channels_last tenv h cl dev m =
        (if truthy h cl \<and> ne_xpu dev
         then ([PrintLine ''---- use normal format'', PrintFailedNHWC (RuntimeError msg)],
               Inr m')
         else ([], Inr m))"
    if "model_to_channels_last tenv m = (Some (RuntimeError msg), m')"
    using that by (rule model_channels_last_caught)
  have cont: "create_trainer tenv h c =
               create_trainer_tail tenv h c dev m2
                 [PrintLine ''---- use normal format'', PrintFailedNHWC (RuntimeError msg)]"
    if "h c ''model'' = Some mc" "h c ''device'' = Some dev" "h c ''channels_last'' = Some cl"
      "truthy h cl" "ne_xpu dev" "to_data_parallel tenv dev (get_model tenv h mc) = Inr m1"
      "model_to_channels_last tenv (m1\<lparr>model_device := Some dev\<rparr>)
         = (Some (RuntimeError msg), m2)"
    using that by (rule create_trainer_continues)
  have built: "param_formats (model t) = param_formats m2
       \<and> take 2 out = [PrintLine ''---- use normal format'', PrintFailedNHWC (RuntimeError msg)]"
    if e: "create_trainer tenv h c =
               create_trainer_tail tenv h c dev m2
                 [PrintLine ''---- use normal format'', PrintFailedNHWC (RuntimeError msg)]"
      and r: "create_trainer tenv h c = (out, h', Inr t)"
      and tc: "h c ''trainer'' = Some (VRef tr)"
        "h tr ''resume'' = None \<or> h tr ''resume'' = Some VNone"
        "h tr ''pre_trained'' = None \<or> h tr ''pre_trained'' = Some VNone"
    for out h' t tr
    using create_trainer_tail_model [OF r [unfolded e] tc] by (simp add: numeral_2_eq_2)
  have pass: "(\<exists>evs. iteration_unprofiled rc L dt b s =
                  (evs, pass_state rc L (batch_duration b) s, pass_outcome rc s)
                \<and> Print (PrintLine ''----input use normal format'') \<in> set evs
                \<and> Print (PrintFailedNHWC (RuntimeError msg')) \<in> set evs
                \<and> ModelCall Contiguous \<in> set evs \<and> ModelCall ChannelsLast3d \<notin> set evs)
        \<and> (\<exists>evs. iteration_profiled rc L dt b s =
                  (evs, pass_state rc L (batch_duration b) s, pass_outcome rc s)
                \<and> Print (PrintLine ''----input use normal format'') \<in> set evs
                \<and> Print (PrintFailedNHWC (RuntimeError msg')) \<in> set evs
                \<and> ModelCall Contiguous \<in> set evs \<and> ModelCall ChannelsLast3d \<notin> set evs)"
    if "input_to_channels_last b = Some (RuntimeError msg')" "batch_len b = 2 \<or> batch_len b = 3"
      "cfg_channels_last rc \<noteq> 0" "cfg_device_str rc \<noteq> ''xpu''"
    using iteration_unprofiled_caught [OF that] iteration_profiled_caught [OF that] by (rule conjI)
  show ?thesis
    using site cont built pass by blast
qed

lemmas create_trainer_eval =
  create_trainer_def create_trainer_tail_def lookup_def a_config_heap_def empty_heap_def
  a_trainer_env_def to_data_parallel_def model_channels_last_def xpu_optimize_def
  construct_trainer_def pop_item_def del_item_def UNet3DTrainer_init_def
  initial_best_eval_score_def two_conv_model_def fails_at_second_def Let_def

text \<open>
  The theorem on a complete configuration for the cpu and a model of two convolutions
  whose conversion raises at the second parameter: \<open>create_trainer\<close> prints the two
  lines and returns a trainer whose model has the formats the failed call left. And on a
  batch whose input cannot be converted: the unprofiled pass continues, and the profiled
  pass calls the model on the default format.
\<close>

theorem channels_last_failure_is_caught_witness:
  "fst (create_trainer (a_trainer_env fails_at_second) a_config_heap 0)
     = [PrintLine ''---- use normal format'',
        PrintFailedNHWC (RuntimeError ''required rank 5 tensor to use channels_last_3d format'')]
   \<and> (case snd (snd (create_trainer (a_trainer_env fails_at_second) a_config_heap 0)) of
         Inl e \<Rightarrow> False
       | Inr t \<Rightarrow>
           param_formats (model t)
             = param_formats (snd (fails_at_second
                 (two_conv_model\<lparr>model_device :=
                    Some (VDevice \<lparr> dev_type = ''cpu'', dev_index = None \<rparr>)\<rparr>))))
   \<and> snd (snd (iteration_unprofiled (a_config False ''cpu'' 3 0 1) 2 Float32
                 ((a_batch 1)\<lparr>input_to_channels_last := Some (RuntimeError ''required rank 5 tensor'')\<rparr>)
                 \<lparr> ls_num_iterations = 0, ls_total_time = 0, ls_total_count = 0 \<rparr>)) = Continue
   \<and> ModelCall Contiguous
       \<in> set (fst (iteration_profiled (a_config True ''cpu'' 3 0 1) 2 Float32
                 ((a_batch 1)\<lparr>input_to_channels_last := Some (RuntimeError ''required rank 5 tensor'')\<rparr>)
                 \<lparr> ls_num_iterations = 0, ls_total_time = 0, ls_total_count = 0 \<rparr>))"
proof -
  define tenv where "tenv = a_trainer_env fails_at_second"
  define dev where "dev = VDevice \<lparr> dev_type = ''cpu'', dev_index = None \<rparr>"
  define msg where "msg = ''required rank 5 tensor to use channels_last_3d format''"
  define m2 where "m2 = snd (fails_at_second (two_conv_model\<lparr>model_device := Some dev\<rparr>))"
  define b where "b = (a_batch 1)\<lparr>input_to_channels_last := Some (RuntimeError ''required rank 5 tensor'')\<rparr>"
  define s0 where "s0 = \<lparr> ls_num_iterations = 0, ls_total_time = 0, ls_total_count = 0 \<rparr>"
  define rc where "rc = a_config False ''cpu'' 3 0 1"
  define rp where "rp = a_config True ''cpu'' 3 0 1"
  have pre: "a_config_heap 0 ''model'' = Some (VRef 1) \<and> a_config_heap 0 ''device'' = Some dev
       \<and> a_config_heap 0 ''channels_last'' = Some (VInt 1) \<and> truthy a_config_heap (VInt 1)
       \<and> ne_xpu dev
       \<and> to_data_parallel tenv dev (get_model tenv a_config_heap (VRef 1)) = Inr two_conv_model
       \<and> model_to_channels_last tenv (two_conv_model\<lparr>model_device := Some dev\<rparr>)
           = (Some (RuntimeError msg), m2)"
    by (simp add: a_config_heap_def dev_def tenv_def a_trainer_env_def to_data_parallel_def
        fails_at_second_def msg_def m2_def)
  have tcs: "a_config_heap 0 ''trainer'' = Some (VRef 3)"
    "a_config_heap 3 ''resume'' = None \<or> a_config_heap 3 ''resume'' = Some VNone"
    "a_config_heap 3 ''pre_trained'' = None \<or> a_config_heap 3 ''pre_trained'' = Some VNone"
    by (simp_all add: a_config_heap_def)
  have ex: "\<exists>out h' t. create_trainer tenv a_config_heap 0 = (out, h', Inr t)"
    unfolding tenv_def by (simp add: create_trainer_eval)
  then obtain out h' t where run: "create_trainer tenv a_config_heap 0 = (out, h', Inr t)"
    by blast
  have bp: "input_to_channels_last b = Some (RuntimeError ''required rank 5 tensor'')
       \<and> (batch_len b = 2 \<or> batch_len b = 3)"
    by (simp add: b_def a_batch_def)
  have cp: "cfg_channels_last rc \<noteq> 0 \<and> cfg_device_str rc \<noteq> ''xpu''"
    "cfg_channels_last rp \<noteq> 0 \<and> cfg_device_str rp \<noteq> ''xpu''"
    by (simp_all add: rc_def rp_def a_config_def)
  have po: "pass_outcome rc s0 = Continue"
    by (simp add: pass_outcome_def rc_def s0_def a_config_def)
  note th1 = channels_last_failure_is_caught
    [of tenv two_conv_model msg m2 a_config_heap "VInt 1" dev 0 "VRef 1" two_conv_model m2
        b "''required rank 5 tensor''" rc 2 Float32 s0]
  note th2 = channels_last_failure_is_caught
    [of tenv two_conv_model msg m2 a_config_heap "VInt 1" dev 0 "VRef 1" two_conv_model m2
        b "''required rank 5 tensor''" rp 2 Float32 s0]
  from th1 pre run tcs
  have m: "param_formats (model t) = param_formats m2
       \<and> take 2 out = [PrintLine ''---- use normal format'', PrintFailedNHWC (RuntimeError msg)]"
    by blast
  have len: "length (fst (create_trainer tenv a_config_heap 0)) = 2"
    unfolding tenv_def by (simp add: create_trainer_eval)
  have o: "out = [PrintLine ''---- use normal format'', PrintFailedNHWC (RuntimeError msg)]"
    using m len run by simp
  have r1: "fst (create_trainer tenv a_config_heap 0)
      = [PrintLine ''---- use normal format'', PrintFailedNHWC (RuntimeError msg)]"
    using run o by simp
  have r2: "(case snd (snd (create_trainer tenv a_config_heap 0)) of Inl e \<Rightarrow> False
             | Inr t \<Rightarrow> param_formats (model t) = param_formats m2)"
    using run m by simp
  from th1 bp cp(1)
  have "\<exists>evs. iteration_unprofiled rc 2 Float32 b s0 =
                  (evs, pass_state rc 2 (batch_duration b) s0, pass_outcome rc s0)"
    by blast
  then have r3: "snd (snd (iteration_unprofiled rc 2 Float32 b s0)) = Continue"
    using po by auto
  from th2 bp cp(2)
  have "\<exists>evs. iteration_profiled rp 2 Float32 b s0 =
                  (evs, pass_state rp 2 (batch_duration b) s0, pass_outcome rp s0)
                \<and> ModelCall Contiguous \<in> set evs"
    by blast
  then have r4: "ModelCall Contiguous \<in> set (fst (iteration_profiled rp 2 Float32 b s0))"
    by auto
  show ?thesis
    using r1 r2 r3 r4
    unfolding tenv_def dev_def msg_def m2_def b_def s0_def rc_def rp_def
    by simp
qed

text \<open>
  C4 as stated fails for the model. The model of two convolutions is built in the
  default layout; its conversion raises \<open>RuntimeError\<close> at the second parameter, after the
  first one is converted; \<open>create_trainer\<close> catches the exception and returns a trainer,
  whose model has its first parameter in the channels-last-3d format: training does not
  continue on the unconverted model.
\<close>

theorem channels_last_failure_is_caught_counterexample:
  "param_formats (get_model (a_trainer_env fails_at_second) a_config_heap (VRef 1))
     = [Contiguous, Contiguous]
   \<and> fst (model_to_channels_last (a_trainer_env fails_at_second)
            (get_model (a_trainer_env fails_at_second) a_config_heap (VRef 1)))
     = Some (RuntimeError ''required rank 5 tensor to use channels_last_3d format'')
   \<and> (case snd (snd (create_trainer (a_trainer_env fails_at_second) a_config_heap 0)) of
         Inl e \<Rightarrow> False
       | Inr t \<Rightarrow> param_formats (model t) = [ChannelsLast3d, Contiguous])"
  by (simp add: create_trainer_eval)

end
